theory Spec2Isabelle
  imports Complex_Main "HOL-Library.AList"
begin

section \<open>Dynamic values\<close>

text \<open>
  The Go code handles documents and query bodies as \<^verbatim>\<open>interface{}\<close> values: what
  \<^verbatim>\<open>json.Unmarshal\<close> builds (nil, bool, float64, string, \<^verbatim>\<open>[]interface{}\<close>,
  \<^verbatim>\<open>map[string]interface{}\<close>) and what the code stores itself (an int64 count, a
  \<^verbatim>\<open>Dict\<close>, a \<^verbatim>\<open>[][]float64\<close>). A mapping is an association list read with
  \<open>map_of\<close>; float64 values are only carried around by this code, never computed with,
  and are modelled by \<open>real\<close>. The package's own \<^verbatim>\<open>type Dict map[string]interface{}\<close> is
  a type of its own for a Go type switch, so a \<^verbatim>\<open>Dict\<close> is kept apart (\<open>VDict\<close>) from a
  \<^verbatim>\<open>map[string]interface{}\<close> (\<open>VMap\<close>).
\<close>

datatype val =
    VNil
  | VBool bool
  | VFloat real
  | VInt int
  | VStr string
  | VList "val list"
  | VMap "(string \<times> val) list"
  | VDict "(string \<times> val) list"

type_synonym dict = "(string \<times> val) list"

section \<open>Nested lookup\<close>

text \<open>
  \<^verbatim>\<open>
  func GetNested(something interface{}, keyParts []string) (interface{}, bool) {
      if len(keyParts) == 0 { return something, true }
      if something != nil {
          switch m := something.(type) {
          case map[string]interface{}:
              v, found := m[keyParts[0]]
              if found { return GetNested(v, keyParts[1:]) }
          }
      }
      return nil, false
  }
  \<close>
  The type switch has the one case \<^verbatim>\<open>map[string]interface{}\<close>: every other value,
  a \<^verbatim>\<open>Dict\<close> among them, is not descended.
\<close>

fun GetNested :: "val \<Rightarrow> string list \<Rightarrow> val \<times> bool" where
  "GetNested something [] = (something, True)"
| "GetNested (VMap m) (k # keyParts) =
     (case map_of m k of
        Some v \<Rightarrow> GetNested v keyParts
      | None \<Rightarrow> (VNil, False))"
| "GetNested something (k # keyParts) = (VNil, False)"

text \<open>
  The specification's wording of the same lookup: start at the value, descend one segment
  at a time through mapping containers, and give up (not found) as soon as the current
  value is not a mapping or lacks the segment.
\<close>

definition descend :: "val option \<Rightarrow> string \<Rightarrow> val option" where
  "descend cur k = (case cur of Some (VMap m) \<Rightarrow> map_of m k | _ \<Rightarrow> None)"

definition resolve_path :: "val \<Rightarrow> string list \<Rightarrow> val option" where
  "resolve_path v path = foldl descend (Some v) path"

definition is_mapping :: "val \<Rightarrow> bool" where
  "is_mapping v = (case v of VMap m \<Rightarrow> True | _ \<Rightarrow> False)"

section \<open>Errors, panics and results\<close>

text \<open>
  A Go function of this package ends in one of three ways: it returns a value and a nil
  error (\<open>Ok\<close>), it returns nil and an error (\<open>Err\<close>), or it panics (\<open>Panic\<close>): a
  failed unchecked type assertion \<^verbatim>\<open>x.(T)\<close> or the dereference of a nil pointer.
  \<open>Errorf\<close> holds the formatted message of a \<^verbatim>\<open>fmt.Errorf\<close>; \<open>External\<close> is any
  error value made by a library (client construction, a backend call, the JSON decoder).
\<close>

datatype error =
    EOF
  | MultipleSourcesErr
  | NoSourcesErr
  | Errorf string
  | External string

datatype panic = TypeAssertionFailed | NilDereference

datatype 'a result = Ok 'a | Err error | Panic panic

section \<open>Configuration, backend and features\<close>

text \<open>
  \<^verbatim>\<open>ElasticsearchConfig\<close>, with the fields under their YAML names. A Go map can be nil;
  \<open>aggs\<close> keeps the difference (\<open>None\<close> is the nil map), since \<^verbatim>\<open>GetFeatures\<close> tests
  it; \<open>sourceFields\<close> is only ever ranged over, where nil and empty behave alike.
\<close>

record ElasticsearchConfig =
  host :: string
  port :: int
  index :: string
  geometryField :: string
  sourceFields :: "(string \<times> string) list"
  aggs :: "(string \<times> string) list option"

text \<open>
  A search hit. \<^verbatim>\<open>hit.Source\<close> is a \<^verbatim>\<open>*json.RawMessage\<close>; the model keeps of it
  what \<^verbatim>\<open>json.Unmarshal(*hit.Source, &source)\<close> makes of it: a nil pointer, bytes the
  decoder rejects with an error, or a mapping.
\<close>

datatype raw = RawNil | RawInvalid error | RawObject dict

record hit =
  hit_Id :: string
  hit_Source :: raw

text \<open>
  The extended statistics of one metric in one cell (\<^verbatim>\<open>Avg\<close> and \<^verbatim>\<open>Sum\<close> are
  \<^verbatim>\<open>*float64\<close> in the client library, the code dereferences them; \<^verbatim>\<open>Count\<close> is an
  int64), a bucket of the grid aggregation (its key is an \<^verbatim>\<open>interface{}\<close>), and a search
  result: \<open>Cells\<close> is \<open>None\<close> when the response has no aggregation named cells.
\<close>

record stats =
  Avg :: "real option"
  Sum :: "real option"
  Count :: int

record bucket =
  Key :: val
  Aggregations :: "(string \<times> stats) list"

record search_result =
  Cells :: "bucket list option"

text \<open>
  The client stands for the backend as this code sees it: the answer to the aggregation
  search, and the answers of the successive \<^verbatim>\<open>scroll.Do\<close> calls (a page of hits or an
  error, \<open>EOF\<close> being the end-of-results signal).
\<close>

record client =
  SearchResponse :: "error + search_result"
  ScrollResponses :: "(error + hit list) list"

record ElasticsearchSource =
  ES :: client
  Index :: string
  GeometryField :: string
  SourceFields :: "(string \<times> string) list"
  Aggs :: "(string \<times> string) list option"

record Bound =
  Left :: real
  Right :: real
  Top :: real
  Bottom :: real

record Tile =
  X :: nat
  Y :: nat
  Z :: nat

record Box =
  MinLat :: real
  MaxLat :: real
  MinLng :: real
  MaxLng :: real

datatype geometry =
    Point real real
  | LineString "(real \<times> real) list"
  | Polygon "(real \<times> real) list list"
  | Collection "geometry list"

record Feature =
  ID :: string
  Geometry :: geometry
  Properties :: "string \<rightharpoonup> val"

text \<open>
  The library functions the retrieval calls, taken as parameters:
  \<open>UnmarshalGeometry\<close> is \<^verbatim>\<open>json.Marshal\<close> followed by
  \<^verbatim>\<open>geojson.UnmarshalGeometry\<close> (an error, or the decoded geometry);
  \<open>TileBound\<close> is \<^verbatim>\<open>tile.Bound()\<close>; \<open>BoundingBox\<close> is \<^verbatim>\<open>geohash.BoundingBox\<close> and
  \<open>Center\<close> is \<^verbatim>\<open>Box.Center()\<close>, which returns latitude then longitude.
\<close>

record library =
  UnmarshalGeometry :: "val \<Rightarrow> error + geometry"
  TileBound :: "Tile \<Rightarrow> Bound"
  BoundingBox :: "string \<Rightarrow> Box"
  Center :: "Box \<Rightarrow> real \<times> real"

text \<open>The request context: a bag of values under string keys.\<close>

datatype ctxval = TileValue Tile | OtherValue val

type_synonym ctx = "string \<rightharpoonup> ctxval"

text \<open>
  What a retrieval does besides returning: the log lines, the backend calls with their
  requests, and the creation and cancellation of the per-page sub-contexts (numbered in
  the order of creation). A backend call runs under the caller's context (\<open>None\<close>) or
  under a sub-context.
\<close>

datatype request =
    SearchRequest string val string "(string \<times> string) list"
  | ScrollRequest string val nat

datatype event =
    Debugf string
  | WithTimeout nat nat
  | Cancel nat
  | Do request "nat option"

definition ScrollSize :: nat where
  "ScrollSize = 250"

definition ScrollTimeout :: nat where
  "ScrollTimeout = 60"

section \<open>The bounds filter\<close>

text \<open>
  \<^verbatim>\<open>
  func (e *ElasticsearchSource) boundsFilter(tileBounds orb.Bound) *Dict {
      return &Dict{"geo_shape": Dict{e.GeometryField: Dict{
          "shape": Dict{"type": "envelope",
              "coordinates": [][]float64{
                  {tileBounds.Left(), tileBounds.Top()},
                  {tileBounds.Right(), tileBounds.Bottom()}}},
          "relation": "intersects"}}}
  }
  \<close>
\<close>

definition boundsFilter :: "ElasticsearchSource \<Rightarrow> Bound \<Rightarrow> val" where
  "boundsFilter e tileBounds =
     VDict [(''geo_shape'',
       VDict [(GeometryField e,
         VDict [(''shape'',
                 VDict [(''type'', VStr ''envelope''),
                        (''coordinates'',
                          VList [VList [VFloat (Left tileBounds), VFloat (Top tileBounds)],
                                 VList [VFloat (Right tileBounds), VFloat (Bottom tileBounds)]])]),
                (''relation'', VStr ''intersects'')])])]"

text \<open>
  Reading a query body: the value found by following keys through nested \<^verbatim>\<open>Dict\<close>
  values, and the keys of the \<^verbatim>\<open>Dict\<close> found at a path (none when the path leads to no
  \<^verbatim>\<open>Dict\<close>). These belong to the statements about the filter, not to the program.
\<close>

fun dictPath :: "val \<Rightarrow> string list \<Rightarrow> val option" where
  "dictPath v [] = Some v"
| "dictPath (VDict d) (k # ks) =
     (case map_of d k of Some v \<Rightarrow> dictPath v ks | None \<Rightarrow> None)"
| "dictPath v (k # ks) = None"

definition dictKeys :: "val \<Rightarrow> string list \<Rightarrow> string list" where
  "dictKeys v path = (case dictPath v path of Some (VDict d) \<Rightarrow> map fst d | _ \<Rightarrow> [])"

text \<open>\<^verbatim>\<open>elastic.NewBoolQuery().Filter(f)\<close>: a bool query with the one filter clause.\<close>

definition BoolQuery_Filter :: "val \<Rightarrow> val" where
  "BoolQuery_Filter f = VMap [(''bool'', VMap [(''filter'', f)])]"

section \<open>Mapping one hit to a feature\<close>

text \<open>
  \<^verbatim>\<open>strings.Split(s, sep)\<close> for a separator of one character: the pieces between the
  separators, one piece more than there are separators (so never an empty list).
\<close>

fun Split :: "string \<Rightarrow> char \<Rightarrow> string list" where
  "Split [] sep = [[]]"
| "Split (c # s) sep =
     (if c = sep then [] # Split s sep
      else (case Split s sep of [] \<Rightarrow> [[c]] | w # ws \<Rightarrow> (c # w) # ws))"

text \<open>
  \<^verbatim>\<open>parentMap\<close> is the very map stored inside \<^verbatim>\<open>source\<close> (Go maps are references), so
  \<^verbatim>\<open>delete(parentMap, lastPart)\<close> changes the document that the later lookups read. A
  decoded JSON document is a tree without sharing, so the document after the deletion is
  the document with the key removed from the mapping found at the parent path.
\<close>

fun deleteNested :: "val \<Rightarrow> string list \<Rightarrow> string \<Rightarrow> val" where
  "deleteNested (VMap m) [] lastPart = VMap (AList.delete lastPart m)"
| "deleteNested (VMap m) (k # keyParts) lastPart =
     (case map_of m k of
        Some v \<Rightarrow> VMap (AList.update k (deleteNested v keyParts lastPart) m)
      | None \<Rightarrow> VMap m)"
| "deleteNested something keyParts lastPart = something"

text \<open>
  \<^verbatim>\<open>
  for prop, fieldName := range e.SourceFields {
      val, found := GetNested(source, strings.Split(fieldName, "."))
      if found { feat.Properties[prop] = val }
  }
  \<close>
  The entries of the map are visited in some order, each key once.
\<close>

fun mapSourceFields :: "val \<Rightarrow> (string \<times> string) list \<Rightarrow> (string \<rightharpoonup> val) \<Rightarrow> (string \<rightharpoonup> val)" where
  "mapSourceFields source [] props = props"
| "mapSourceFields source ((prop, fieldName) # rest) props =
     (case GetNested source (Split fieldName CHR ''.'') of
        (v, True) \<Rightarrow> mapSourceFields source rest (props(prop \<mapsto> v))
      | (v, False) \<Rightarrow> mapSourceFields source rest props)"

text \<open>
  \<^verbatim>\<open>
  func (e *ElasticsearchSource) hitToFeature(hit *elastic.SearchHit) (*geojson.Feature, error) {
      id := hit.Id
      var source map[string]interface{}
      err := json.Unmarshal(*hit.Source, &source)
      if err != nil { return nil, err }
      geometryFieldParts := strings.Split(e.GeometryField, ".")
      numParts := len(geometryFieldParts)
      lastPart := geometryFieldParts[numParts-1]
      parent, found := GetNested(source, geometryFieldParts[0:numParts-1])
      if !found { return nil, fmt.Errorf("Couldn't find geometry at field: %s", e.GeometryField) }
      parentMap := parent.(map[string]interface{})
      geometry := parentMap[lastPart]
      delete(parentMap, lastPart)
      gj, _ := json.Marshal(geometry)
      geom, _ := geojson.UnmarshalGeometry(gj)
      feat := geojson.NewFeature(geom.Geometry())
      feat.ID = id
      feat.Properties = make(map[string]interface{})
      for prop, fieldName := range e.SourceFields { ... }
      feat.Properties["id"] = id
      return feat, nil
  }
  \<close>
  The error of \<^verbatim>\<open>geojson.UnmarshalGeometry\<close> is discarded; with an error the library
  returns a nil \<^verbatim>\<open>*Geometry\<close>, and the method call \<^verbatim>\<open>geom.Geometry()\<close> on it
  dereferences nil. A key absent from \<^verbatim>\<open>parentMap\<close> reads as nil.
\<close>

definition hitToFeature :: "library \<Rightarrow> ElasticsearchSource \<Rightarrow> hit \<Rightarrow> Feature result" where
  "hitToFeature lib e h =
     (let id = hit_Id h in
      case hit_Source h of
        RawNil \<Rightarrow> Panic NilDereference
      | RawInvalid err \<Rightarrow> Err err
      | RawObject source \<Rightarrow>
          (let geometryFieldParts = Split (GeometryField e) CHR ''.'';
               numParts = length geometryFieldParts;
               lastPart = geometryFieldParts ! (numParts - 1);
               parentPath = take (numParts - 1) geometryFieldParts
           in case GetNested (VMap source) parentPath of
                (parent, False) \<Rightarrow>
                  Err (Errorf (''Couldn't find geometry at field: '' @ GeometryField e))
              | (parent, True) \<Rightarrow>
                  (case parent of
                     VMap parentMap \<Rightarrow>
                       (let geometry = (case map_of parentMap lastPart of Some g \<Rightarrow> g | None \<Rightarrow> VNil);
                            source' = deleteNested (VMap source) parentPath lastPart
                        in case UnmarshalGeometry lib geometry of
                             Inl err \<Rightarrow> Panic NilDereference
                           | Inr geom \<Rightarrow>
                               Ok \<lparr>ID = id, Geometry = geom,
                                   Properties =
                                     (mapSourceFields source' (SourceFields e) Map.empty)
                                       (''id'' \<mapsto> VStr id)\<rparr>)
                   | _ \<Rightarrow> Panic TypeAssertionFailed)))"

section \<open>The raw-feature retrieval\<close>

text \<open>
  The loop over the hits of one page: the first hit that fails to map ends the retrieval.
\<close>

fun hitsToFeatures :: "library \<Rightarrow> ElasticsearchSource \<Rightarrow> hit list \<Rightarrow> Feature list \<Rightarrow> Feature list result" where
  "hitsToFeatures lib e [] fc = Ok fc"
| "hitsToFeatures lib e (h # hits) fc =
     (case hitToFeature lib e h of
        Ok feat \<Rightarrow> hitsToFeatures lib e hits (fc @ [feat])
      | Err err \<Rightarrow> Err err
      | Panic p \<Rightarrow> Panic p)"

text \<open>
  \<^verbatim>\<open>
  for {
      scrollCtx, scrollCancel := context.WithTimeout(ctx, ScrollTimeout)
      defer scrollCancel()
      results, err := scroll.Do(scrollCtx)
      if err == io.EOF { break }
      if err != nil { return nil, err }
      Logger.Debugf("Scrolling %d hits", len(results.Hits.Hits))
      for _, hit := range results.Hits.Hits { ... }
      scrollCancel()
  }
  \<close>
  The state of the loop: the answers the backend still has to give, the number of the next
  sub-context, the collection, the stack of deferred cancellations (the latest first) and
  the events so far. The loop leaves only through an answer that is an error, so when the
  answers run out before one, it has not returned: the value is \<open>None\<close>.
\<close>

fun scrollLoop ::
  "library \<Rightarrow> ElasticsearchSource \<Rightarrow> request \<Rightarrow> (error + hit list) list \<Rightarrow> nat \<Rightarrow> Feature list
    \<Rightarrow> nat list \<Rightarrow> event list \<Rightarrow> (Feature list result \<times> nat list \<times> event list) option" where
  "scrollLoop lib e scroll [] n fc deferred tr = None"
| "scrollLoop lib e scroll (answer # answers) n fc deferred tr =
     (let tr1 = tr @ [WithTimeout n ScrollTimeout];
          deferred1 = n # deferred;
          tr2 = tr1 @ [Do scroll (Some n)]
      in case answer of
           Inl err \<Rightarrow>
             (if err = EOF then Some (Ok fc, deferred1, tr2)
              else Some (Err err, deferred1, tr2))
         | Inr hits \<Rightarrow>
             (let tr3 = tr2 @ [Debugf ''Scrolling %d hits''] in
              case hitsToFeatures lib e hits fc of
                Ok fc' \<Rightarrow> scrollLoop lib e scroll answers (Suc n) fc' deferred1 (tr3 @ [Cancel n])
              | Err err \<Rightarrow> Some (Err err, deferred1, tr3)
              | Panic p \<Rightarrow> Some (Panic p, deferred1, tr3)))"

text \<open>
  \<^verbatim>\<open>
  func (e *ElasticsearchSource) doGetFeatures(ctx context.Context) (*geojson.FeatureCollection, error) {
      tile := ctx.Value("tile").(maptile.Tile)
      query := elastic.NewBoolQuery().Filter(e.boundsFilter(tile.Bound()))
      s, _ := query.Source()
      Logger.Debugf("Feature query: %V", s)
      fc := geojson.NewFeatureCollection()
      scroll := e.ES.Scroll(e.Index).Body(query).Size(ScrollSize)
      for { ... }
      return fc, nil
  }
  \<close>
  When the function is left, by a return or by a panic of the loop, the deferred
  cancellations run, the latest first.
\<close>

definition doGetFeatures ::
  "library \<Rightarrow> ElasticsearchSource \<Rightarrow> ctx \<Rightarrow> (Feature list result \<times> event list) option" where
  "doGetFeatures lib e ctx =
     (case ctx ''tile'' of
        Some (TileValue tile) \<Rightarrow>
          (let query = BoolQuery_Filter (boundsFilter e (TileBound lib tile));
               tr = [Debugf ''Feature query: %V''];
               scroll = ScrollRequest (Index e) query ScrollSize
           in case scrollLoop lib e scroll (ScrollResponses (ES e)) 0 [] [] tr of
                None \<Rightarrow> None
              | Some (r, deferred, tr') \<Rightarrow> Some (r, tr' @ map Cancel deferred))
      | _ \<Rightarrow> Some (Panic TypeAssertionFailed, []))"

section \<open>The aggregation retrieval\<close>

text \<open>
  \<^verbatim>\<open>
  for aggName, _ := range e.Aggs {
      statsAgg, statsFound := bucket.Aggregations.ExtendedStats(aggName)
      if statsFound {
          feat.Properties[fmt.Sprintf("%s:avg", aggName)] = *statsAgg.Avg
          feat.Properties[fmt.Sprintf("%s:sum", aggName)] = *statsAgg.Sum
          feat.Properties[fmt.Sprintf("%s:count", aggName)] = statsAgg.Count
      }
  }
  \<close>
\<close>

fun statsProperties ::
  "(string \<times> stats) list \<Rightarrow> string list \<Rightarrow> (string \<rightharpoonup> val) \<Rightarrow> (string \<rightharpoonup> val) result" where
  "statsProperties aggregations [] props = Ok props"
| "statsProperties aggregations (aggName # rest) props =
     (case map_of aggregations aggName of
        None \<Rightarrow> statsProperties aggregations rest props
      | Some statsAgg \<Rightarrow>
          (case Avg statsAgg of
             None \<Rightarrow> Panic NilDereference
           | Some avg \<Rightarrow>
               (case Sum statsAgg of
                  None \<Rightarrow> Panic NilDereference
                | Some sumv \<Rightarrow>
                    statsProperties aggregations rest
                      (props(aggName @ '':avg'' \<mapsto> VFloat avg,
                             aggName @ '':sum'' \<mapsto> VFloat sumv,
                             aggName @ '':count'' \<mapsto> VInt (Count statsAgg))))))"

text \<open>
  \<^verbatim>\<open>
  cellBB := geohash.BoundingBox(bucket.Key.(string))
  lat, lng := cellBB.Center()
  geom := orb.Point{lng, lat}
  feat := geojson.NewFeature(geom)
  feat.ID = bucket.Key.(string)
  for aggName, _ := range e.Aggs { ... }
  fc.Append(feat)
  \<close>
\<close>

definition bucketToFeature :: "library \<Rightarrow> ElasticsearchSource \<Rightarrow> bucket \<Rightarrow> Feature result" where
  "bucketToFeature lib e b =
     (case Key b of
        VStr key \<Rightarrow>
          (let cellBB = BoundingBox lib key;
               (lat, lng) = Center lib cellBB;
               geom = Point lng lat
           in case statsProperties (Aggregations b)
                     (map fst (case Aggs e of None \<Rightarrow> [] | Some m \<Rightarrow> m)) Map.empty of
                Ok props \<Rightarrow> Ok \<lparr>ID = key, Geometry = geom, Properties = props\<rparr>
              | Err err \<Rightarrow> Err err
              | Panic p \<Rightarrow> Panic p)
      | _ \<Rightarrow> Panic TypeAssertionFailed)"

fun bucketsToFeatures :: "library \<Rightarrow> ElasticsearchSource \<Rightarrow> bucket list \<Rightarrow> Feature list \<Rightarrow> Feature list result" where
  "bucketsToFeatures lib e [] fc = Ok fc"
| "bucketsToFeatures lib e (b # buckets) fc =
     (case bucketToFeature lib e b of
        Ok feat \<Rightarrow> bucketsToFeatures lib e buckets (fc @ [feat])
      | Err err \<Rightarrow> Err err
      | Panic p \<Rightarrow> Panic p)"

text \<open>
  \<^verbatim>\<open>
  func (e *ElasticsearchSource) doGetAggregates(ctx context.Context) (*geojson.FeatureCollection, error) {
      tile := ctx.Value("tile").(maptile.Tile)
      query := elastic.NewBoolQuery().Filter(e.boundsFilter(tile.Bound()))
      fc := geojson.NewFeatureCollection()
      var cellAggQ = elastic.NewGeoHashGridAggregation().Field(e.GeometryField)
      for aggName, aggField := range e.Aggs { ... SubAggregation(aggName, statsAggQ) }
      results, err := e.ES.Search(e.Index).Query(query).Aggregation("cells", cellAggQ).Do(ctx)
      if err != nil { return nil, err }
      cellAgg, found := results.Aggregations.GeoHash("cells")
      if found { for _, bucket := range cellAgg.Buckets { ... } }
      return fc, nil
  }
  \<close>
\<close>

definition doGetAggregates ::
  "library \<Rightarrow> ElasticsearchSource \<Rightarrow> ctx \<Rightarrow> Feature list result \<times> event list" where
  "doGetAggregates lib e ctx =
     (case ctx ''tile'' of
        Some (TileValue tile) \<Rightarrow>
          (let query = BoolQuery_Filter (boundsFilter e (TileBound lib tile));
               search = SearchRequest (Index e) query (GeometryField e)
                          (case Aggs e of None \<Rightarrow> [] | Some m \<Rightarrow> m);
               tr = [Do search None]
           in case SearchResponse (ES e) of
                Inl err \<Rightarrow> (Err err, tr)
              | Inr results \<Rightarrow>
                  (case Cells results of
                     None \<Rightarrow> (Ok [], tr)
                   | Some buckets \<Rightarrow> (bucketsToFeatures lib e buckets [], tr)))
      | _ \<Rightarrow> (Panic TypeAssertionFailed, []))"

section \<open>Choosing the retrieval\<close>

text \<open>
  \<^verbatim>\<open>
  func (e *ElasticsearchSource) GetFeatures(ctx context.Context) (*geojson.FeatureCollection, error) {
      if e.Aggs != nil {
          Logger.Debugf("Running aggregate query")
          return e.doGetAggregates(ctx)
      } else {
          Logger.Debugf("Running hit query")
          return e.doGetFeatures(ctx)
      }
  }
  \<close>
\<close>

definition GetFeatures ::
  "library \<Rightarrow> ElasticsearchSource \<Rightarrow> ctx \<Rightarrow> (Feature list result \<times> event list) option" where
  "GetFeatures lib e ctx =
     (if Aggs e \<noteq> None then
        (case doGetAggregates lib e ctx of
           (r, tr) \<Rightarrow> Some (r, Debugf ''Running aggregate query'' # tr))
      else
        (case doGetFeatures lib e ctx of
           None \<Rightarrow> None
         | Some (r, tr) \<Rightarrow> Some (r, Debugf ''Running hit query'' # tr)))"

section \<open>Layer construction\<close>

text \<open>
  \<^verbatim>\<open>SourceConfig\<close> and \<^verbatim>\<open>LayerConfig\<close>, with the fields under their YAML names
  (those of the layer with a prefix); an optional backend is a pointer that may be nil.
  The PostGIS configuration and the PostGIS source are declared elsewhere in the package
  and stay type parameters.
\<close>

record 'pc SourceConfig =
  elasticsearch :: "ElasticsearchConfig option"
  postgis :: "'pc option"

record 'pc LayerConfig =
  lc_name :: string
  lc_description :: string
  lc_minzoom :: int
  lc_maxzoom :: int
  lc_source :: "'pc SourceConfig"

datatype 'ps Source = ElasticsearchBackend ElasticsearchSource | PostGISBackend 'ps

record 'ps Layer =
  Name :: string
  Description :: string
  Minzoom :: int
  Maxzoom :: int
  Source :: "'ps Source option"

text \<open>
  \<^verbatim>\<open>
  func NewElasticsearchSource(config *ElasticsearchConfig) (Source, error) {
      es, err := elastic.NewClient(
          elastic.SetURL(fmt.Sprintf("http://%s:%d", config.Host, config.Port)), ...)
      if err != nil { return nil, err }
      return &ElasticsearchSource{ES: es, Index: config.Index,
          GeometryField: config.GeometryField, SourceFields: config.SourceFields,
          Aggs: config.Aggs}, nil
  }
  \<close>
  \<^verbatim>\<open>elastic.NewClient\<close> is a parameter: from the host and the port of the URL, an error
  or a client.
\<close>

definition NewElasticsearchSource ::
  "(string \<Rightarrow> int \<Rightarrow> error + client) \<Rightarrow> ElasticsearchConfig \<Rightarrow> ElasticsearchSource result" where
  "NewElasticsearchSource NewClient config =
     (case NewClient (host config) (port config) of
        Inl err \<Rightarrow> Err err
      | Inr es \<Rightarrow>
          Ok \<lparr>ES = es, Index = index config, GeometryField = geometryField config,
              SourceFields = sourceFields config, Aggs = aggs config\<rparr>)"

text \<open>
  \<^verbatim>\<open>
  func CreateLayer(layerConfig LayerConfig) (*Layer, error) {
      layer := &Layer{Name: layerConfig.Name, Description: layerConfig.Description,
          Minzoom: layerConfig.Minzoom, Maxzoom: layerConfig.Maxzoom}
      if layerConfig.Source.Elasticsearch != nil && layerConfig.Source.PostGIS != nil {
          return nil, MultipleSourcesErr }
      if layerConfig.Source.Elasticsearch == nil && layerConfig.Source.PostGIS == nil {
          return nil, NoSourcesErr }
      if layerConfig.Source.Elasticsearch != nil {
          source, err := NewElasticsearchSource(layerConfig.Source.Elasticsearch)
          if err != nil { return nil, err }
          layer.Source = source
          return layer, nil }
      if layerConfig.Source.PostGIS != nil {
          source, err := NewPostGISSource(layerConfig.Source.PostGIS)
          if err != nil { return nil, err }
          layer.Source = source
          return layer, nil }
      return nil, fmt.Errorf("Invalid layer source config for layer: %s", layerConfig.Name)
  }
  \<close>
  \<^verbatim>\<open>NewPostGISSource\<close> is declared elsewhere in the package and is a parameter: from
  the PostGIS configuration, an error or a source.
\<close>

definition CreateLayer ::
  "(string \<Rightarrow> int \<Rightarrow> error + client) \<Rightarrow> ('pc \<Rightarrow> error + 'ps) \<Rightarrow> 'pc LayerConfig \<Rightarrow> 'ps Layer result" where
  "CreateLayer NewClient NewPostGISSource layerConfig =
     (let layer = \<lparr>Name = lc_name layerConfig, Description = lc_description layerConfig,
                   Minzoom = lc_minzoom layerConfig, Maxzoom = lc_maxzoom layerConfig,
                   Source = None\<rparr>
      in if elasticsearch (lc_source layerConfig) \<noteq> None \<and> postgis (lc_source layerConfig) \<noteq> None
         then Err MultipleSourcesErr
         else if elasticsearch (lc_source layerConfig) = None \<and> postgis (lc_source layerConfig) = None
         then Err NoSourcesErr
         else (case elasticsearch (lc_source layerConfig) of
                 Some esConfig \<Rightarrow>
                   (case NewElasticsearchSource NewClient esConfig of
                      Ok src \<Rightarrow> Ok (layer\<lparr>Source := Some (ElasticsearchBackend src)\<rparr>)
                    | Err err \<Rightarrow> Err err
                    | Panic p \<Rightarrow> Panic p)
               | None \<Rightarrow>
                   (case postgis (lc_source layerConfig) of
                      Some pgConfig \<Rightarrow>
                        (case NewPostGISSource pgConfig of
                           Inr src \<Rightarrow> Ok (layer\<lparr>Source := Some (PostGISBackend src)\<rparr>)
                         | Inl err \<Rightarrow> Err err)
                    | None \<Rightarrow>
                        Err (Errorf (''Invalid layer source config for layer: ''
                                      @ lc_name layerConfig)))))"

section \<open>Notions used in the statements\<close>

text \<open>
  The path of the container of the geometry value (the configured path without its last
  segment), the key of the geometry value in it, and the document after the deletion.
\<close>

definition geometryParent :: "ElasticsearchSource \<Rightarrow> string list" where
  "geometryParent e = butlast (Split (GeometryField e) CHR ''.'')"

definition geometryKey :: "ElasticsearchSource \<Rightarrow> string" where
  "geometryKey e = last (Split (GeometryField e) CHR ''.'')"

definition stripped :: "ElasticsearchSource \<Rightarrow> dict \<Rightarrow> val" where
  "stripped e source = deleteNested (VMap source) (geometryParent e) (geometryKey e)"

text \<open>
  The discipline of the per-page sub-contexts along a sequence of events, from the list of
  the sub-contexts that are open: a sub-context is created only when no earlier one is
  still open, a cancellation closes its sub-context (and may be repeated), and a backend
  call under a sub-context needs it open. The value is the list of the sub-contexts open
  at the end, or \<open>None\<close> when the discipline is broken.
\<close>

fun discipline :: "event list \<Rightarrow> nat list \<Rightarrow> nat list option" where
  "discipline [] opened = Some opened"
| "discipline (WithTimeout n t # tr) opened =
     (if opened = [] then discipline tr [n] else None)"
| "discipline (Cancel n # tr) opened = discipline tr (removeAll n opened)"
| "discipline (Do rq c # tr) opened =
     (if (case c of None \<Rightarrow> True | Some n \<Rightarrow> n \<in> set opened) then discipline tr opened
      else None)"
| "discipline (Debugf s # tr) opened = discipline tr opened"

text \<open>The backend calls among the events.\<close>

fun backendCalls :: "event list \<Rightarrow> request list" where
  "backendCalls [] = []"
| "backendCalls (Do rq c # tr) = rq # backendCalls tr"
| "backendCalls (ev # tr) = backendCalls tr"

text \<open>
  An instance of the library parameters, for evaluating the code on concrete inputs: a
  decoder that accepts the GeoJSON encoding of a point and rejects everything else, one
  bound for every tile, the box of the geohash cell u for the key u and the box of the
  cell s for every other key, and the middle of a box as its centre.
\<close>

definition decodePoint :: "val \<Rightarrow> error + geometry" where
  "decodePoint v =
     (case GetNested v [''type''] of
        (VStr t, True) \<Rightarrow>
          (if t = ''Point'' then
             (case GetNested v [''coordinates''] of
                (VList [VFloat x, VFloat y], True) \<Rightarrow> Inr (Point x y)
              | _ \<Rightarrow> Inl (External ''geojson: invalid geometry''))
           else Inl (External ''geojson: invalid geometry''))
      | _ \<Rightarrow> Inl (External ''geojson: invalid geometry''))"

definition exampleLibrary :: library where
  "exampleLibrary =
     \<lparr>UnmarshalGeometry = decodePoint,
      TileBound = (\<lambda>t. \<lparr>Left = - 180, Right = 180, Top = 85, Bottom = - 85\<rparr>),
      BoundingBox = (\<lambda>k. if k = ''u'' then \<lparr>MinLat = 45, MaxLat = 90, MinLng = 0, MaxLng = 45\<rparr>
                         else \<lparr>MinLat = 0, MaxLat = 45, MinLng = 0, MaxLng = 45\<rparr>),
      Center = (\<lambda>b. ((MinLat b + MaxLat b) / 2, (MinLng b + MaxLng b) / 2))\<rparr>"

definition pointValue :: "real \<Rightarrow> real \<Rightarrow> val" where
  "pointValue x y =
     VMap [(''type'', VStr ''Point''), (''coordinates'', VList [VFloat x, VFloat y])]"

definition exampleContext :: ctx where
  "exampleContext = [''tile'' \<mapsto> TileValue \<lparr>X = 0, Y = 0, Z = 0\<rparr>]"

text \<open>
  For the aggregation retrieval: the metrics the source is configured with, the three
  property keys of a metric, and what it means for a feature to be the feature of a cell:
  its identifier is the key of the cell, its geometry the point at the centre of the cell's
  box, every configured metric that the cell reports contributes its three properties with
  the reported values, every configured metric that the cell lacks contributes none of its
  three keys, and there is no other property.
\<close>

definition configuredMetrics :: "ElasticsearchSource \<Rightarrow> string list" where
  "configuredMetrics e = map fst (case Aggs e of None \<Rightarrow> [] | Some m \<Rightarrow> m)"

definition metricKeys :: "string \<Rightarrow> string set" where
  "metricKeys n = {n @ '':avg'', n @ '':sum'', n @ '':count''}"

definition cellFeature :: "library \<Rightarrow> ElasticsearchSource \<Rightarrow> bucket \<Rightarrow> Feature \<Rightarrow> bool" where
  "cellFeature lib e b feat =
     (Key b = VStr (ID feat)
      \<and> Geometry feat = (case Center lib (BoundingBox lib (ID feat)) of (lat, lng) \<Rightarrow> Point lng lat)
      \<and> (\<forall>n \<in> set (configuredMetrics e).
            case map_of (Aggregations b) n of
              Some st \<Rightarrow>
                Properties feat (n @ '':avg'') = map_option VFloat (Avg st)
                \<and> Properties feat (n @ '':sum'') = map_option VFloat (Sum st)
                \<and> Properties feat (n @ '':count'') = Some (VInt (Count st))
            | None \<Rightarrow>
                Properties feat (n @ '':avg'') = None \<and> Properties feat (n @ '':sum'') = None
                \<and> Properties feat (n @ '':count'') = None)
      \<and> (\<forall>k \<in> dom (Properties feat).
            \<exists>n \<in> set (configuredMetrics e). map_of (Aggregations b) n \<noteq> None \<and> k \<in> metricKeys n))"

text \<open>
  A document with a nested geometry, a source configured on it (one of its properties is
  mapped to the geometry field itself, one to a field the document lacks), a backend that
  answers one page and then the end of the results, and a document without the geometry
  container.
\<close>

definition exampleHit :: hit where
  "exampleHit =
     \<lparr>hit_Id = ''doc1'',
      hit_Source = RawObject
        [(''location'', VMap [(''geometry'', pointValue 1 2), (''accuracy'', VFloat 5)]),
         (''properties'', VMap [(''name'', VStr ''Oslo'')])]\<rparr>"

definition brokenHit :: hit where
  "brokenHit = \<lparr>hit_Id = ''doc2'', hit_Source = RawObject [(''properties'', VMap [(''name'', VStr ''Bergen'')])]\<rparr>"

definition exampleClient :: client where
  "exampleClient =
     \<lparr>SearchResponse = Inr \<lparr>Cells = None\<rparr>,
      ScrollResponses = [Inr [exampleHit], Inl EOF]\<rparr>"

definition exampleSource :: ElasticsearchSource where
  "exampleSource =
     \<lparr>ES = exampleClient, Index = ''places'', GeometryField = ''location.geometry'',
      SourceFields = [(''name'', ''properties.name''), (''shape'', ''location.geometry''),
                      (''kind'', ''kind'')],
      Aggs = None\<rparr>"

definition exampleFeature :: Feature where
  "exampleFeature =
     \<lparr>ID = ''doc1'', Geometry = Point 1 2,
      Properties = [''name'' \<mapsto> VStr ''Oslo'', ''id'' \<mapsto> VStr ''doc1'']\<rparr>"

definition exampleScroll :: request where
  "exampleScroll =
     ScrollRequest ''places''
       (BoolQuery_Filter (boundsFilter exampleSource \<lparr>Left = - 180, Right = 180, Top = 85, Bottom = - 85\<rparr>))
       250"

definition exampleSearch :: "(string \<times> string) list \<Rightarrow> request" where
  "exampleSearch subs =
     SearchRequest ''places''
       (BoolQuery_Filter (boundsFilter exampleSource \<lparr>Left = - 180, Right = 180, Top = 85, Bottom = - 85\<rparr>))
       ''location.geometry'' subs"

text \<open>
  A configuration of the example source, and two answers to the aggregation search: one
  with a cell that reports the metric pop and a cell without it, one with a cell where the
  metric is present over no value (count 0 and no average).
\<close>

definition exampleConfig :: ElasticsearchConfig where
  "exampleConfig =
     \<lparr>host = ''localhost'', port = 9200, index = ''places'',
      geometryField = ''location.geometry'',
      sourceFields = [(''name'', ''properties.name'')], aggs = None\<rparr>"

definition populatedClient :: client where
  "populatedClient =
     \<lparr>SearchResponse = Inr \<lparr>Cells = Some
        [\<lparr>Key = VStr ''s'',
          Aggregations = [(''pop'', \<lparr>Avg = Some 3.5, Sum = Some 35, Count = 10\<rparr>)]\<rparr>,
         \<lparr>Key = VStr ''u'', Aggregations = []\<rparr>]\<rparr>,
      ScrollResponses = [Inl EOF]\<rparr>"

definition emptyCellClient :: client where
  "emptyCellClient =
     \<lparr>SearchResponse = Inr \<lparr>Cells = Some
        [\<lparr>Key = VStr ''s'',
          Aggregations = [(''pop'', \<lparr>Avg = None, Sum = Some 0, Count = 0\<rparr>)]\<rparr>]\<rparr>,
      ScrollResponses = [Inl EOF]\<rparr>"

section \<open>Results about the nested lookup\<close>

lemma foldl_descend_None: "foldl descend None path = None"
  by (induction path) (simp_all add: descend_def)

lemma GetNested_resolve_path:
  "GetNested v path = (case resolve_path v path of Some x \<Rightarrow> (x, True) | None \<Rightarrow> (VNil, False))"
proof (induction v path rule: GetNested.induct)
  case (1 something)
  show ?case by (simp add: resolve_path_def)
next
  case (2 m k keyParts)
  show ?case
  proof (cases "map_of m k")
    case None
    then show ?thesis
      by (simp add: resolve_path_def descend_def foldl_descend_None)
  next
    case (Some v)
    with 2 show ?thesis
      by (simp add: resolve_path_def descend_def)
  qed
qed (simp_all add: resolve_path_def descend_def foldl_descend_None)

text \<open>
  C7. An empty path returns the current value as found. With a first segment \<open>k\<close>, a
  mapping that holds \<open>k\<close> gives the resolution of the remaining path in its entry; a
  mapping without \<open>k\<close>, and every value that is not a mapping, gives not-found (the
  value nil and the flag false, no error). The lookup agrees with the segment-by-segment
  descent of the specification. Path a, b, c in {a: {b: {c: 5}}} yields (5, found) and
  path a, b in {a: 1} yields not-found.
\<close>

theorem GetNested_spec:
  "GetNested v [] = (v, True)
   \<and> (\<forall>m x. v = VMap m \<and> map_of m k = Some x \<longrightarrow> GetNested v (k # ks) = GetNested x ks)
   \<and> (\<forall>m. v = VMap m \<and> map_of m k = None \<longrightarrow> GetNested v (k # ks) = (VNil, False))
   \<and> (\<not> is_mapping v \<longrightarrow> GetNested v (k # ks) = (VNil, False))
   \<and> GetNested v path = (case resolve_path v path of Some x \<Rightarrow> (x, True) | None \<Rightarrow> (VNil, False))
   \<and> GetNested (VMap [(''a'', VMap [(''b'', VMap [(''c'', VFloat 5)])])]) [''a'', ''b'', ''c'']
       = (VFloat 5, True)
   \<and> GetNested (VMap [(''a'', VFloat 1)]) [''a'', ''b''] = (VNil, False)"
proof -
  have nm: "\<not> is_mapping v \<Longrightarrow> GetNested v (k # ks) = (VNil, False)"
    by (cases v) (simp_all add: is_mapping_def)
  show ?thesis
    using nm by (simp add: GetNested_resolve_path [of v path])
qed

theorem GetNested_spec_witness:
  "GetNested (VMap [(''a'', VMap [(''b'', VFloat 2)])]) [''a'', ''b''] = (VFloat 2, True)
   \<and> GetNested (VMap [(''a'', VMap [(''b'', VFloat 2)])]) [''a'', ''b'']
       = GetNested (VMap [(''b'', VFloat 2)]) [''b'']
   \<and> GetNested (VMap [(''a'', VMap [(''b'', VFloat 2)])]) [''c'', ''b''] = (VNil, False)
   \<and> GetNested (VFloat 2) [''b''] = (VNil, False)"
  using GetNested_spec [of "VMap [(''a'', VMap [(''b'', VFloat 2)])]" "''a''" "[''b'']" "[]"]
    GetNested_spec [of "VMap [(''a'', VMap [(''b'', VFloat 2)])]" "''c''" "[''b'']" "[]"]
    GetNested_spec [of "VFloat 2" "''b''" "[]" "[]"]
  by (simp add: is_mapping_def)

text \<open>
  C1. For every bounding rectangle, the filter is the \<^verbatim>\<open>Dict\<close> with the single key
  geo_shape, holding a \<^verbatim>\<open>Dict\<close> with the single key of the configured geometry field,
  holding the shape and the relation: the shape is of type envelope with coordinates
  [[left, top], [right, bottom]], and the relation is intersects.
\<close>

theorem boundsFilter_shape:
  "boundsFilter e B =
     VDict [(''geo_shape'',
       VDict [(GeometryField e,
         VDict [(''shape'',
                 VDict [(''type'', VStr ''envelope''),
                        (''coordinates'',
                          VList [VList [VFloat (Left B), VFloat (Top B)],
                                 VList [VFloat (Right B), VFloat (Bottom B)]])]),
                (''relation'', VStr ''intersects'')])])]
   \<and> dictKeys (boundsFilter e B) [] = [''geo_shape'']
   \<and> dictKeys (boundsFilter e B) [''geo_shape''] = [GeometryField e]
   \<and> set (dictKeys (boundsFilter e B) [''geo_shape'', GeometryField e]) = {''shape'', ''relation''}
   \<and> set (dictKeys (boundsFilter e B) [''geo_shape'', GeometryField e, ''shape''])
       = {''type'', ''coordinates''}
   \<and> dictPath (boundsFilter e B) [''geo_shape'', GeometryField e, ''shape'', ''type'']
       = Some (VStr ''envelope'')
   \<and> dictPath (boundsFilter e B) [''geo_shape'', GeometryField e, ''shape'', ''coordinates'']
       = Some (VList [VList [VFloat (Left B), VFloat (Top B)],
                      VList [VFloat (Right B), VFloat (Bottom B)]])
   \<and> dictPath (boundsFilter e B) [''geo_shape'', GeometryField e, ''relation'']
       = Some (VStr ''intersects'')"
  by (simp add: boundsFilter_def dictKeys_def insert_commute)

theorem boundsFilter_shape_witness:
  "boundsFilter exampleSource \<lparr>Left = - 180, Right = 180, Top = 85, Bottom = - 85\<rparr> =
     VDict [(''geo_shape'',
       VDict [(''location.geometry'',
         VDict [(''shape'',
                 VDict [(''type'', VStr ''envelope''),
                        (''coordinates'',
                          VList [VList [VFloat (- 180), VFloat 85],
                                 VList [VFloat 180, VFloat (- 85)]])]),
                (''relation'', VStr ''intersects'')])])]
   \<and> dictPath (boundsFilter exampleSource \<lparr>Left = - 180, Right = 180, Top = 85, Bottom = - 85\<rparr>)
     [''geo_shape'', ''location.geometry'', ''shape'', ''coordinates'']
     = Some (VList [VList [VFloat (- 180), VFloat 85], VList [VFloat 180, VFloat (- 85)]])
   \<and> dictPath (boundsFilter exampleSource \<lparr>Left = - 180, Right = 180, Top = 85, Bottom = - 85\<rparr>)
     [''geo_shape'', ''location.geometry'', ''relation''] = Some (VStr ''intersects'')"
  using boundsFilter_shape [of exampleSource "\<lparr>Left = - 180, Right = 180, Top = 85, Bottom = - 85\<rparr>"]
  by (simp add: exampleSource_def)

text \<open>
  The nested lookup of the package does not read the filter: its type switch does not
  match a \<^verbatim>\<open>Dict\<close>.
\<close>

lemma GetNested_boundsFilter: "GetNested (boundsFilter e B) (k # ks) = (VNil, False)"
  by (simp add: boundsFilter_def)

section \<open>Results about the mapping of one hit\<close>

lemma Split_nonempty: "Split s c \<noteq> []"
  by (induction s) (auto split: list.splits)

lemma last_Split: "last (Split s c) = Split s c ! (length (Split s c) - 1)"
  by (simp add: last_conv_nth Split_nonempty)


lemma mapSourceFields_origin:
  "mapSourceFields src sf props p = Some v \<Longrightarrow>
   props p = Some v \<or> (\<exists>path. (p, path) \<in> set sf \<and> GetNested src (Split path CHR ''.'') = (v, True))"
proof (induction sf arbitrary: props)
  case Nil
  then show ?case by simp
next
  case (Cons a sf)
  obtain pn fieldName where a: "a = (pn, fieldName)" by (cases a)
  obtain w fnd where g: "GetNested src (Split fieldName CHR ''.'') = (w, fnd)"
    by (cases "GetNested src (Split fieldName CHR ''.'')")
  show ?case
  proof (cases fnd)
    case True
    with Cons.prems a g have "mapSourceFields src sf (props(pn \<mapsto> w)) p = Some v" by simp
    from Cons.IH [OF this] show ?thesis using a g True by (auto split: if_splits)
  next
    case False
    with Cons.prems a g have "mapSourceFields src sf props p = Some v" by simp
    from Cons.IH [OF this] show ?thesis using a by auto
  qed
qed

lemma mapSourceFields_distinct:
  "distinct (map fst sf) \<Longrightarrow>
   mapSourceFields src sf props p =
     (case map_of sf p of
        None \<Rightarrow> props p
      | Some path \<Rightarrow>
          (case GetNested src (Split path CHR ''.'') of (v, True) \<Rightarrow> Some v | (v, False) \<Rightarrow> props p))"
proof (induction sf arbitrary: props)
  case Nil
  then show ?case by simp
next
  case (Cons a sf)
  obtain pn fieldName where a: "a = (pn, fieldName)" by (cases a)
  obtain w fnd where g: "GetNested src (Split fieldName CHR ''.'') = (w, fnd)"
    by (cases "GetNested src (Split fieldName CHR ''.'')")
  from Cons.prems a have d: "distinct (map fst sf)" and n: "map_of sf pn = None"
    by (auto simp: map_of_eq_None_iff)
  show ?case
    using Cons.IH [OF d] a g n by (cases fnd) (auto split: option.splits bool.splits)
qed

lemmas path_unfold = geometryParent_def geometryKey_def stripped_def butlast_conv_take last_Split

lemma hitToFeature_not_found:
  "hit_Source h = RawObject doc \<Longrightarrow> GetNested (VMap doc) (geometryParent e) = (parent, False) \<Longrightarrow>
   hitToFeature lib e h = Err (Errorf (''Couldn't find geometry at field: '' @ GeometryField e))"
  unfolding hitToFeature_def Let_def path_unfold by simp

lemma hitToFeature_not_mapping:
  "hit_Source h = RawObject doc \<Longrightarrow> GetNested (VMap doc) (geometryParent e) = (parent, True) \<Longrightarrow>
   \<not> is_mapping parent \<Longrightarrow> hitToFeature lib e h = Panic TypeAssertionFailed"
  unfolding hitToFeature_def Let_def path_unfold is_mapping_def by (cases parent) simp_all

lemma hitToFeature_undecoded:
  "hit_Source h = RawObject doc \<Longrightarrow> GetNested (VMap doc) (geometryParent e) = (VMap parentMap, True) \<Longrightarrow>
   UnmarshalGeometry lib (case map_of parentMap (geometryKey e) of Some g \<Rightarrow> g | None \<Rightarrow> VNil) = Inl err \<Longrightarrow>
   hitToFeature lib e h = Panic NilDereference"
  unfolding hitToFeature_def Let_def path_unfold by simp

lemma hitToFeature_decoded:
  "hit_Source h = RawObject doc \<Longrightarrow> GetNested (VMap doc) (geometryParent e) = (VMap parentMap, True) \<Longrightarrow>
   UnmarshalGeometry lib (case map_of parentMap (geometryKey e) of Some g \<Rightarrow> g | None \<Rightarrow> VNil) = Inr geom \<Longrightarrow>
   hitToFeature lib e h =
     Ok \<lparr>ID = hit_Id h, Geometry = geom,
         Properties = (mapSourceFields (stripped e doc) (SourceFields e) Map.empty)
                        (''id'' \<mapsto> VStr (hit_Id h))\<rparr>"
  unfolding hitToFeature_def Let_def path_unfold by simp




lemma example_parts:
  "geometryParent exampleSource = [''location'']" "geometryKey exampleSource = ''geometry''"
  by (simp_all add: geometryParent_def geometryKey_def exampleSource_def)

lemma example_feature:
  "hitToFeature exampleLibrary exampleSource exampleHit =
     Ok \<lparr>ID = ''doc1'', Geometry = Point 1 2,
         Properties = [''name'' \<mapsto> VStr ''Oslo'', ''id'' \<mapsto> VStr ''doc1'']\<rparr>"
  by (simp add: hitToFeature_def exampleSource_def exampleHit_def exampleLibrary_def
      decodePoint_def pointValue_def Let_def)

lemma example_feature': "hitToFeature exampleLibrary exampleSource exampleHit = Ok exampleFeature"
  by (simp add: example_feature exampleFeature_def)



text \<open>
  Where the mapping of a hit returns. It returns an error when the payload of the hit
  does not unmarshal (that error, unchanged), and when the container of the geometry
  value, the configured path without its last segment, is unresolvable in the document (a
  field-not-found error naming the field). When that container is a mapping that holds,
  at the last segment, a value that decodes as a geometry, it returns a feature with that
  geometry and the identifier of the hit, whatever the optional property paths are: every
  property other than id is the resolution of its configured path in the document without
  the geometry, and a property whose path is unresolvable there is omitted, never an
  error.
\<close>

lemma hitToFeature_returns:
  "(hit_Source h = RawInvalid err \<longrightarrow> hitToFeature lib e h = Err err)
   \<and> (hit_Source h = RawObject doc \<and> snd (GetNested (VMap doc) (geometryParent e)) = False \<longrightarrow>
        hitToFeature lib e h = Err (Errorf (''Couldn't find geometry at field: '' @ GeometryField e)))
   \<and> (hit_Source h = RawObject doc
        \<and> GetNested (VMap doc) (geometryParent e) = (VMap parentMap, True)
        \<and> map_of parentMap (geometryKey e) = Some g \<and> UnmarshalGeometry lib g = Inr geom \<longrightarrow>
        (\<exists>feat. hitToFeature lib e h = Ok feat \<and> ID feat = hit_Id h \<and> Geometry feat = geom
           \<and> Properties feat ''id'' = Some (VStr (hit_Id h))
           \<and> (\<forall>p v. p \<noteq> ''id'' \<and> Properties feat p = Some v \<longrightarrow>
                 (\<exists>path. (p, path) \<in> set (SourceFields e)
                    \<and> GetNested (stripped e doc) (Split path CHR ''.'') = (v, True)))
           \<and> (distinct (map fst (SourceFields e)) \<longrightarrow>
                 (\<forall>p path. p \<noteq> ''id'' \<and> (p, path) \<in> set (SourceFields e) \<longrightarrow>
                    Properties feat p =
                      (case GetNested (stripped e doc) (Split path CHR ''.'') of
                         (v, True) \<Rightarrow> Some v | (v, False) \<Rightarrow> None)))))"
proof (intro conjI impI)
  assume "hit_Source h = RawInvalid err"
  then show "hitToFeature lib e h = Err err" by (simp add: hitToFeature_def)
next
  assume a: "hit_Source h = RawObject doc \<and> snd (GetNested (VMap doc) (geometryParent e)) = False"
  then have "GetNested (VMap doc) (geometryParent e) = (fst (GetNested (VMap doc) (geometryParent e)), False)"
    by (simp add: prod_eq_iff)
  with a show "hitToFeature lib e h = Err (Errorf (''Couldn't find geometry at field: '' @ GeometryField e))"
    by (blast intro: hitToFeature_not_found)
next
  assume a: "hit_Source h = RawObject doc
        \<and> GetNested (VMap doc) (geometryParent e) = (VMap parentMap, True)
        \<and> map_of parentMap (geometryKey e) = Some g \<and> UnmarshalGeometry lib g = Inr geom"
  let ?feat = "\<lparr>ID = hit_Id h, Geometry = geom,
         Properties = (mapSourceFields (stripped e doc) (SourceFields e) Map.empty)
                        (''id'' \<mapsto> VStr (hit_Id h))\<rparr>"
  from a have ok: "hitToFeature lib e h = Ok ?feat"
    using hitToFeature_decoded [of h doc e parentMap lib geom] by simp
  show "\<exists>feat. hitToFeature lib e h = Ok feat \<and> ID feat = hit_Id h \<and> Geometry feat = geom
           \<and> Properties feat ''id'' = Some (VStr (hit_Id h))
           \<and> (\<forall>p v. p \<noteq> ''id'' \<and> Properties feat p = Some v \<longrightarrow>
                 (\<exists>path. (p, path) \<in> set (SourceFields e)
                    \<and> GetNested (stripped e doc) (Split path CHR ''.'') = (v, True)))
           \<and> (distinct (map fst (SourceFields e)) \<longrightarrow>
                 (\<forall>p path. p \<noteq> ''id'' \<and> (p, path) \<in> set (SourceFields e) \<longrightarrow>
                    Properties feat p =
                      (case GetNested (stripped e doc) (Split path CHR ''.'') of
                         (v, True) \<Rightarrow> Some v | (v, False) \<Rightarrow> None)))"
  proof (intro exI [of _ ?feat] conjI allI impI)
    show "hitToFeature lib e h = Ok ?feat" by (rule ok)
  next
    fix p v
    assume "p \<noteq> ''id'' \<and> Properties ?feat p = Some v"
    then have "mapSourceFields (stripped e doc) (SourceFields e) Map.empty p = Some v"
      by auto
    from mapSourceFields_origin [OF this]
    show "\<exists>path. (p, path) \<in> set (SourceFields e)
                    \<and> GetNested (stripped e doc) (Split path CHR ''.'') = (v, True)"
      by simp
  next
    fix p path
    assume d: "distinct (map fst (SourceFields e))"
      and p: "p \<noteq> ''id'' \<and> (p, path) \<in> set (SourceFields e)"
    then have m: "map_of (SourceFields e) p = Some path" by simp
    from p have "Properties ?feat p = mapSourceFields (stripped e doc) (SourceFields e) Map.empty p"
      by simp
    also have "\<dots> = (case GetNested (stripped e doc) (Split path CHR ''.'') of
                         (v, True) \<Rightarrow> Some v | (v, False) \<Rightarrow> None)"
      unfolding mapSourceFields_distinct [OF d] m by simp
    finally show "Properties ?feat p =
                      (case GetNested (stripped e doc) (Split path CHR ''.'') of
                         (v, True) \<Rightarrow> Some v | (v, False) \<Rightarrow> None)" .
  qed simp_all
qed

lemma hitToFeature_returns_example:
  "hitToFeature exampleLibrary exampleSource \<lparr>hit_Id = ''doc0'', hit_Source = RawInvalid (External ''unexpected end of JSON input'')\<rparr>
     = Err (External ''unexpected end of JSON input'')
   \<and> hitToFeature exampleLibrary (exampleSource\<lparr>GeometryField := ''geo.shape''\<rparr>) exampleHit
     = Err (Errorf ''Couldn't find geometry at field: geo.shape'')
   \<and> (\<exists>feat. hitToFeature exampleLibrary exampleSource exampleHit = Ok feat
         \<and> Geometry feat = Point 1 2 \<and> Properties feat ''name'' = Some (VStr ''Oslo'')
         \<and> Properties feat ''kind'' = None \<and> Properties feat ''shape'' = None)"
proof -
  let ?doc = "[(''location'', VMap [(''geometry'', pointValue 1 2), (''accuracy'', VFloat 5)]),
         (''properties'', VMap [(''name'', VStr ''Oslo'')])]"
  have s: "stripped exampleSource ?doc =
      VMap [(''location'', VMap [(''accuracy'', VFloat 5)]),
            (''properties'', VMap [(''name'', VStr ''Oslo'')])]"
    by (simp add: stripped_def example_parts AList.delete_eq)
  have 1: "hitToFeature exampleLibrary exampleSource \<lparr>hit_Id = ''doc0'', hit_Source = RawInvalid (External ''unexpected end of JSON input'')\<rparr>
     = Err (External ''unexpected end of JSON input'')"
    using hitToFeature_returns [of "\<lparr>hit_Id = ''doc0'', hit_Source = RawInvalid (External ''unexpected end of JSON input'')\<rparr>"
        "External ''unexpected end of JSON input''" exampleLibrary exampleSource]
    by simp
  have 2: "hitToFeature exampleLibrary (exampleSource\<lparr>GeometryField := ''geo.shape''\<rparr>) exampleHit
     = Err (Errorf ''Couldn't find geometry at field: geo.shape'')"
    using hitToFeature_returns [of exampleHit _ exampleLibrary "exampleSource\<lparr>GeometryField := ''geo.shape''\<rparr>" ?doc]
    by (simp add: exampleHit_def geometryParent_def)
  have 3: "\<exists>feat. hitToFeature exampleLibrary exampleSource exampleHit = Ok feat
         \<and> Geometry feat = Point 1 2 \<and> Properties feat ''name'' = Some (VStr ''Oslo'')
         \<and> Properties feat ''kind'' = None \<and> Properties feat ''shape'' = None"
    using hitToFeature_returns [of exampleHit _ exampleLibrary exampleSource ?doc
        "[(''geometry'', pointValue 1 2), (''accuracy'', VFloat 5)]" "pointValue 1 2" "Point 1 2"]
    apply (simp add: example_parts s)
    apply (simp add: exampleHit_def exampleLibrary_def decodePoint_def pointValue_def)
    apply (simp add: exampleSource_def)
    apply (elim exE conjE)
    subgoal for feat
      apply (rule exI [of _ feat])
      apply simp
      done
    done
  from 1 2 3 show ?thesis by simp
qed

text \<open>
  In every other case the mapping panics: these two equivalences say exactly when it
  returns an error and exactly when it panics. An error is never returned for a last
  segment that its container lacks, for a container that is no mapping, or for a value
  that does not decode.
\<close>

lemma hitToFeature_Err_iff:
  "(\<exists>err. hitToFeature lib e h = Err err) \<longleftrightarrow>
     (\<exists>err. hit_Source h = RawInvalid err)
     \<or> (\<exists>doc. hit_Source h = RawObject doc \<and> \<not> snd (GetNested (VMap doc) (geometryParent e)))"
proof (cases "hit_Source h")
  case RawNil
  then show ?thesis by (simp add: hitToFeature_def)
next
  case (RawInvalid err)
  then show ?thesis by (simp add: hitToFeature_def)
next
  case (RawObject doc)
  obtain parent fnd where g: "GetNested (VMap doc) (geometryParent e) = (parent, fnd)"
    by (cases "GetNested (VMap doc) (geometryParent e)")
  show ?thesis
  proof (cases fnd)
    case False
    with g hitToFeature_not_found [OF RawObject, of e parent lib] RawObject show ?thesis by simp
  next
    case True
    show ?thesis
    proof (cases "is_mapping parent")
      case False
      with g True hitToFeature_not_mapping [OF RawObject, of e parent lib] RawObject
      show ?thesis by simp
    next
      case m: True
      then obtain parentMap where pm: "parent = VMap parentMap"
        by (cases parent) (simp_all add: is_mapping_def)
      from g True pm have par: "GetNested (VMap doc) (geometryParent e) = (VMap parentMap, True)"
        by simp
      show ?thesis
      proof (cases "UnmarshalGeometry lib
                      (case map_of parentMap (geometryKey e) of Some g \<Rightarrow> g | None \<Rightarrow> VNil)")
        case (Inl err)
        with hitToFeature_undecoded [OF RawObject par, of lib err] RawObject par show ?thesis
          by simp
      next
        case (Inr geom)
        with hitToFeature_decoded [OF RawObject par, of lib geom] RawObject par show ?thesis
          by simp
      qed
    qed
  qed
qed

lemma hitToFeature_Panic_iff:
  "(\<exists>p. hitToFeature lib e h = Panic p) \<longleftrightarrow>
     hit_Source h = RawNil
     \<or> (\<exists>doc parent. hit_Source h = RawObject doc
           \<and> GetNested (VMap doc) (geometryParent e) = (parent, True) \<and> \<not> is_mapping parent)
     \<or> (\<exists>doc parentMap err. hit_Source h = RawObject doc
           \<and> GetNested (VMap doc) (geometryParent e) = (VMap parentMap, True)
           \<and> UnmarshalGeometry lib
                (case map_of parentMap (geometryKey e) of Some g \<Rightarrow> g | None \<Rightarrow> VNil) = Inl err)"
proof (cases "hit_Source h")
  case RawNil
  then show ?thesis by (simp add: hitToFeature_def)
next
  case (RawInvalid err)
  then show ?thesis by (simp add: hitToFeature_def)
next
  case (RawObject doc)
  obtain parent fnd where g: "GetNested (VMap doc) (geometryParent e) = (parent, fnd)"
    by (cases "GetNested (VMap doc) (geometryParent e)")
  show ?thesis
  proof (cases fnd)
    case False
    with g hitToFeature_not_found [OF RawObject, of e parent lib] RawObject show ?thesis by simp
  next
    case True
    show ?thesis
    proof (cases "is_mapping parent")
      case False
      with g True hitToFeature_not_mapping [OF RawObject, of e parent lib] RawObject
      show ?thesis by simp
    next
      case m: True
      then obtain parentMap where pm: "parent = VMap parentMap"
        by (cases parent) (simp_all add: is_mapping_def)
      from g True pm have par: "GetNested (VMap doc) (geometryParent e) = (VMap parentMap, True)"
        by simp
      show ?thesis
      proof (cases "UnmarshalGeometry lib
                      (case map_of parentMap (geometryKey e) of Some g \<Rightarrow> g | None \<Rightarrow> VNil)")
        case (Inl err)
        with hitToFeature_undecoded [OF RawObject par, of lib err] RawObject par show ?thesis
          by simp
      next
        case (Inr geom)
        with hitToFeature_decoded [OF RawObject par, of lib geom] RawObject par show ?thesis
          by (simp add: is_mapping_def)
      qed
    qed
  qed
qed

text \<open>
  C3. The claim asks for a returned error whenever the geometry path is unresolvable in
  the document or the value read there does not decode. The code returns the
  field-not-found error only for an unresolvable container (last line below). On a
  document whose container lacks the last segment, on a document where a value on the
  way is no mapping (both make the path unresolvable), and on a value that the decoder
  rejects, it panics instead of returning an error: there the code does not do what C3
  states.
\<close>

theorem hitToFeature_panics:
  "snd (GetNested (VMap [(''properties'', VMap [(''name'', VStr ''Bergen'')])])
         (Split ''properties.shape'' CHR ''.'')) = False
   \<and> hitToFeature exampleLibrary (exampleSource\<lparr>GeometryField := ''properties.shape''\<rparr>) brokenHit
       = Panic NilDereference
   \<and> snd (GetNested (VMap [(''properties'', VMap [(''name'', VStr ''Bergen'')])])
         (Split ''properties.name.first'' CHR ''.'')) = False
   \<and> hitToFeature exampleLibrary (exampleSource\<lparr>GeometryField := ''properties.name.first''\<rparr>) brokenHit
       = Panic TypeAssertionFailed
   \<and> GetNested (VMap [(''properties'', VMap [(''name'', VStr ''Bergen'')])])
         (Split ''properties.name'' CHR ''.'') = (VStr ''Bergen'', True)
   \<and> UnmarshalGeometry exampleLibrary (VStr ''Bergen'') = Inl (External ''geojson: invalid geometry'')
   \<and> hitToFeature exampleLibrary (exampleSource\<lparr>GeometryField := ''properties.name''\<rparr>) brokenHit
       = Panic NilDereference
   \<and> hitToFeature exampleLibrary (exampleSource\<lparr>GeometryField := ''geo.shape''\<rparr>) brokenHit
       = Err (Errorf ''Couldn't find geometry at field: geo.shape'')"
  by (simp add: hitToFeature_def exampleSource_def brokenHit_def exampleLibrary_def
      decodePoint_def Let_def)

section \<open>Results about the raw-feature retrieval\<close>









lemma discipline_append:
  "discipline (tr @ tr') opened =
     (case discipline tr opened of None \<Rightarrow> None | Some opened' \<Rightarrow> discipline tr' opened')"
  by (induction tr opened rule: discipline.induct) simp_all

lemma discipline_cancels:
  "discipline (map Cancel d) opened = Some (filter (\<lambda>n. n \<notin> set d) opened)"
proof (induction d arbitrary: opened)
  case Nil
  then show ?case by simp
next
  case (Cons n d)
  have "filter (\<lambda>x. x \<notin> set d) (removeAll n opened) = filter (\<lambda>x. x \<noteq> n \<and> x \<notin> set d) opened"
    by (induction opened) auto
  with Cons show ?case by (simp add: conj_commute)
qed

lemma scrollLoop_discipline:
  "scrollLoop lib e rq answers n fc d tr = Some (r, d', tr') \<Longrightarrow> discipline tr [] = Some [] \<Longrightarrow>
   \<exists>m. m \<in> set d' \<and> discipline tr' [] = Some [m]"
proof (induction lib e rq answers n fc d tr rule: scrollLoop.induct)
  case (1 lib e scroll n fc deferred tr)
  then show ?case by simp
next
  case (2 lib e scroll answer answers n fc deferred tr)
  have open2: "discipline (tr @ [WithTimeout n ScrollTimeout] @ [Do scroll (Some n)]) [] = Some [n]"
    using "2.prems"(2) by (simp add: discipline_append)
  show ?case
  proof (cases answer)
    case (Inl err)
    with "2.prems"(1) open2 show ?thesis
      by (auto simp: Let_def split: if_splits)
  next
    case (Inr hits)
    have open3: "discipline (tr @ [WithTimeout n ScrollTimeout] @ [Do scroll (Some n)] @ [Debugf ''Scrolling %d hits'']) [] = Some [n]"
      using "2.prems"(2) by (simp add: discipline_append)
    show ?thesis
    proof (cases "hitsToFeatures lib e hits fc")
      case (Ok fc')
      have closed: "discipline ((((tr @ [WithTimeout n ScrollTimeout]) @ [Do scroll (Some n)]) @ [Debugf ''Scrolling %d hits'']) @ [Cancel n]) [] = Some []"
        using "2.prems"(2) by (simp add: discipline_append)
      from "2.prems"(1) Inr Ok have
        "scrollLoop lib e scroll answers (Suc n) fc' (n # deferred)
           ((((tr @ [WithTimeout n ScrollTimeout]) @ [Do scroll (Some n)]) @ [Debugf ''Scrolling %d hits'']) @ [Cancel n])
         = Some (r, d', tr')"
        by (simp add: Let_def)
      from "2.IH" [OF refl refl refl Inr refl Ok this closed] show ?thesis .
    next
      case (Err err)
      with "2.prems"(1) Inr open3 show ?thesis by (auto simp: Let_def)
    next
      case (Panic p)
      with "2.prems"(1) Inr open3 show ?thesis by (auto simp: Let_def)
    qed
  qed
qed

lemma example_retrieval:
  "doGetFeatures exampleLibrary exampleSource exampleContext =
     Some (Ok [exampleFeature],
       [Debugf ''Feature query: %V'',
        WithTimeout 0 60, Do exampleScroll (Some 0), Debugf ''Scrolling %d hits'', Cancel 0,
        WithTimeout 1 60, Do exampleScroll (Some 1),
        Cancel 1, Cancel 0])"
proof -
  have r: "ScrollResponses (ES exampleSource) = [Inr [exampleHit], Inl EOF]"
    and i: "Index exampleSource = ''places''"
    by (simp_all add: exampleSource_def exampleClient_def)
  have t: "TileBound exampleLibrary = (\<lambda>t. \<lparr>Left = - 180, Right = 180, Top = 85, Bottom = - 85\<rparr>)"
    by (simp add: exampleLibrary_def)
  show ?thesis
    by (simp add: doGetFeatures_def exampleContext_def r i t Let_def example_feature'
        exampleScroll_def ScrollSize_def ScrollTimeout_def)
qed





text \<open>
  C9. However the raw-feature retrieval ends (a return on the end of the results, a return
  on an error, or a panic while mapping a document), its events keep the discipline of
  the sub-contexts and leave none open: each page's sub-context is created when every
  earlier one has been cancelled, the backend call of the page runs under it, and it is
  cancelled at the end of the page or, at the latest, by the deferred cancellations when
  the function is left.
\<close>

theorem doGetFeatures_releases:
  assumes "doGetFeatures lib e ctx = Some (r, tr)"
  shows "discipline tr [] = Some []"
proof (cases "\<exists>tile. ctx ''tile'' = Some (TileValue tile)")
  case False
  with assms have "tr = []"
    by (auto simp: doGetFeatures_def split: option.splits ctxval.splits)
  then show ?thesis by simp
next
  case True
  then obtain tile where t: "ctx ''tile'' = Some (TileValue tile)" by blast
  let ?rq = "ScrollRequest (Index e) (BoolQuery_Filter (boundsFilter e (TileBound lib tile))) ScrollSize"
  from assms t obtain d' tr' where
    loop: "scrollLoop lib e ?rq (ScrollResponses (ES e)) 0 [] [] [Debugf ''Feature query: %V''] = Some (r, d', tr')"
    and tr: "tr = tr' @ map Cancel d'"
    by (auto simp: doGetFeatures_def Let_def split: option.splits)
  have "discipline [Debugf ''Feature query: %V''] [] = Some []" by simp
  from scrollLoop_discipline [OF loop this] obtain m where "m \<in> set d'" "discipline tr' [] = Some [m]"
    by blast
  with tr show ?thesis
    by (simp add: discipline_append discipline_cancels)
qed

theorem doGetFeatures_releases_witness:
  "doGetFeatures exampleLibrary exampleSource exampleContext =
     Some (Ok [exampleFeature],
       [Debugf ''Feature query: %V'',
        WithTimeout 0 60, Do exampleScroll (Some 0), Debugf ''Scrolling %d hits'', Cancel 0,
        WithTimeout 1 60, Do exampleScroll (Some 1),
        Cancel 1, Cancel 0])
   \<and> discipline
       [Debugf ''Feature query: %V'',
        WithTimeout 0 60, Do exampleScroll (Some 0), Debugf ''Scrolling %d hits'', Cancel 0,
        WithTimeout 1 60, Do exampleScroll (Some 1),
        Cancel 1, Cancel 0] [] = Some []"
  using doGetFeatures_releases [OF example_retrieval] example_retrieval by simp

section \<open>Results about the choice of the retrieval\<close>

text \<open>
  C10. When the context holds no tile under the key tile (no value, or a value that is not
  a tile), both retrievals panic on the type assertion before any event, and
  \<^verbatim>\<open>GetFeatures\<close> panics with no backend call among its events.
\<close>

theorem tile_precondition:
  assumes "\<forall>tile. ctx ''tile'' \<noteq> Some (TileValue tile)"
  shows "doGetFeatures lib e ctx = Some (Panic TypeAssertionFailed, [])
    \<and> doGetAggregates lib e ctx = (Panic TypeAssertionFailed, [])
    \<and> (\<exists>tr. GetFeatures lib e ctx = Some (Panic TypeAssertionFailed, tr) \<and> backendCalls tr = [])"
proof -
  from assms have 1: "doGetFeatures lib e ctx = Some (Panic TypeAssertionFailed, [])"
    by (auto simp: doGetFeatures_def split: option.splits ctxval.splits)
  from assms have 2: "doGetAggregates lib e ctx = (Panic TypeAssertionFailed, [])"
    by (auto simp: doGetAggregates_def split: option.splits ctxval.splits)
  from 1 2 show ?thesis by (simp add: GetFeatures_def)
qed

theorem tile_precondition_witness:
  "doGetFeatures exampleLibrary exampleSource Map.empty = Some (Panic TypeAssertionFailed, [])
   \<and> doGetAggregates exampleLibrary exampleSource [''tile'' \<mapsto> OtherValue (VStr ''0/0/0'')]
       = (Panic TypeAssertionFailed, [])
   \<and> GetFeatures exampleLibrary exampleSource Map.empty
       = Some (Panic TypeAssertionFailed, [Debugf ''Running hit query''])"
  using tile_precondition [of Map.empty exampleLibrary exampleSource]
    tile_precondition [of "[''tile'' \<mapsto> OtherValue (VStr ''0/0/0'')]" exampleLibrary exampleSource]
  by (simp add: GetFeatures_def exampleSource_def)

text \<open>
  C6, as the code has it. \<^verbatim>\<open>GetFeatures\<close> runs the aggregation retrieval exactly when
  the mapping of the aggregations is not nil, also when it is empty, and the raw-feature
  retrieval when it is nil.
\<close>

theorem GetFeatures_dispatch:
  "(Aggs e \<noteq> None \<longrightarrow>
      GetFeatures lib e ctx =
        Some (fst (doGetAggregates lib e ctx),
              Debugf ''Running aggregate query'' # snd (doGetAggregates lib e ctx)))
   \<and> (Aggs e = None \<longrightarrow>
      GetFeatures lib e ctx =
        map_option (\<lambda>(r, tr). (r, Debugf ''Running hit query'' # tr)) (doGetFeatures lib e ctx))"
  by (auto simp: GetFeatures_def split: prod.splits option.splits)

theorem GetFeatures_dispatch_witness:
  "GetFeatures exampleLibrary (exampleSource\<lparr>Aggs := Some [(''pop'', ''population'')]\<rparr>) exampleContext
       = Some (Ok [], [Debugf ''Running aggregate query'', Do (exampleSearch [(''pop'', ''population'')]) None])
   \<and> GetFeatures exampleLibrary exampleSource exampleContext =
     Some (Ok [exampleFeature],
       [Debugf ''Running hit query'', Debugf ''Feature query: %V'',
        WithTimeout 0 60, Do exampleScroll (Some 0), Debugf ''Scrolling %d hits'', Cancel 0,
        WithTimeout 1 60, Do exampleScroll (Some 1),
        Cancel 1, Cancel 0])"
proof -
  have a: "doGetAggregates exampleLibrary (exampleSource\<lparr>Aggs := Some [(''pop'', ''population'')]\<rparr>) exampleContext
    = (Ok [], [Do (exampleSearch [(''pop'', ''population'')]) None])"
    by (simp add: doGetAggregates_def exampleSource_def exampleClient_def
      exampleContext_def exampleLibrary_def exampleSearch_def Let_def boundsFilter_def)
  have n: "Aggs exampleSource = None" by (simp add: exampleSource_def)
  show ?thesis
    using GetFeatures_dispatch [of "exampleSource\<lparr>Aggs := Some [(''pop'', ''population'')]\<rparr>" exampleLibrary exampleContext]
      GetFeatures_dispatch [of exampleSource exampleLibrary exampleContext]
    by (simp add: a n example_retrieval)
qed

text \<open>
  The claim C6 as stated fails: a source whose mapping of aggregations is empty but not nil
  declares no aggregation, and the aggregation retrieval runs (the search request is
  sent).
\<close>

theorem GetFeatures_dispatch_counterexample:
  "Aggs (exampleSource\<lparr>Aggs := Some []\<rparr>) = Some []
   \<and> GetFeatures exampleLibrary (exampleSource\<lparr>Aggs := Some []\<rparr>) exampleContext
       = Some (Ok [], [Debugf ''Running aggregate query'', Do (exampleSearch []) None])"
  by (simp add: GetFeatures_def doGetAggregates_def exampleSource_def exampleClient_def
      exampleContext_def exampleLibrary_def exampleSearch_def Let_def boundsFilter_def)

section \<open>Results about the aggregation retrieval\<close>

lemma metric_key_inj:
  "(n @ '':avg'' = m @ '':avg'') = (n = m)"
  "(n @ '':sum'' = m @ '':sum'') = (n = m)"
  "(n @ '':count'' = m @ '':count'') = (n = m)"
  "n @ '':avg'' \<noteq> m @ '':sum''" "n @ '':avg'' \<noteq> m @ '':count''"
  "n @ '':sum'' \<noteq> m @ '':avg''" "n @ '':sum'' \<noteq> m @ '':count''"
  "n @ '':count'' \<noteq> m @ '':avg''" "n @ '':count'' \<noteq> m @ '':sum''"
proof -
  show "(n @ '':avg'' = m @ '':avg'') = (n = m)" "(n @ '':sum'' = m @ '':sum'') = (n = m)"
    "(n @ '':count'' = m @ '':count'') = (n = m)"
    by simp_all
  have d: "last a \<noteq> last b \<Longrightarrow> a \<noteq> b" for a b :: string by auto
  show "n @ '':avg'' \<noteq> m @ '':sum''" by (rule d) simp
  show "n @ '':avg'' \<noteq> m @ '':count''" by (rule d) simp
  show "n @ '':sum'' \<noteq> m @ '':avg''" by (rule d) simp
  show "n @ '':sum'' \<noteq> m @ '':count''" by (rule d) simp
  show "n @ '':count'' \<noteq> m @ '':avg''" by (rule d) simp
  show "n @ '':count'' \<noteq> m @ '':sum''" by (rule d) simp
qed

lemma statsProperties_other:
  "statsProperties aggregations names props = Ok props' \<Longrightarrow>
   \<forall>n \<in> set names. map_of aggregations n \<noteq> None \<longrightarrow> k \<notin> metricKeys n \<Longrightarrow>
   props' k = props k"
proof (induction aggregations names props rule: statsProperties.induct)
  case (1 aggregations props)
  then show ?case by simp
next
  case (2 aggregations aggName rest props)
  show ?case
  proof (cases "map_of aggregations aggName")
    case None
    with 2 show ?thesis by simp
  next
    case (Some statsAgg)
    with "2.prems"(1) obtain avg sumv where a: "Avg statsAgg = Some avg" and s: "Sum statsAgg = Some sumv"
      by (auto split: option.splits)
    let ?props = "props(aggName @ '':avg'' \<mapsto> VFloat avg, aggName @ '':sum'' \<mapsto> VFloat sumv,
                        aggName @ '':count'' \<mapsto> VInt (Count statsAgg))"
    from "2.prems"(1) Some a s have "statsProperties aggregations rest ?props = Ok props'" by simp
    from "2.IH"(2) [OF Some a s this] "2.prems"(2) have "props' k = ?props k" by simp
    moreover from "2.prems"(2) Some have "k \<notin> metricKeys aggName" by simp
    ultimately show ?thesis by (simp add: metricKeys_def)
  qed
qed

lemma statsProperties_present:
  "statsProperties aggregations names props = Ok props' \<Longrightarrow> map_of aggregations n = Some st \<Longrightarrow>
   n \<in> set names \<or>
     (props (n @ '':avg'') = map_option VFloat (Avg st) \<and> props (n @ '':sum'') = map_option VFloat (Sum st)
      \<and> props (n @ '':count'') = Some (VInt (Count st))) \<Longrightarrow>
   props' (n @ '':avg'') = map_option VFloat (Avg st) \<and> props' (n @ '':sum'') = map_option VFloat (Sum st)
     \<and> props' (n @ '':count'') = Some (VInt (Count st))"
proof (induction aggregations names props rule: statsProperties.induct)
  case (1 aggregations props)
  then show ?case by simp
next
  case (2 aggregations aggName rest props)
  show ?case
  proof (cases "map_of aggregations aggName")
    case None
    with "2.prems" have "n \<noteq> aggName" by auto
    with 2 None show ?thesis by simp
  next
    case (Some statsAgg)
    with "2.prems"(1) obtain avg sumv where a: "Avg statsAgg = Some avg" and s: "Sum statsAgg = Some sumv"
      by (auto split: option.splits)
    let ?props = "props(aggName @ '':avg'' \<mapsto> VFloat avg, aggName @ '':sum'' \<mapsto> VFloat sumv,
                        aggName @ '':count'' \<mapsto> VInt (Count statsAgg))"
    from "2.prems"(1) Some a s have run: "statsProperties aggregations rest ?props = Ok props'" by simp
    have "n \<in> set rest \<or>
       (?props (n @ '':avg'') = map_option VFloat (Avg st) \<and> ?props (n @ '':sum'') = map_option VFloat (Sum st)
        \<and> ?props (n @ '':count'') = Some (VInt (Count st)))"
    proof (cases "n = aggName")
      case True
      with "2.prems"(2) Some a s show ?thesis by (simp add: metric_key_inj)
    next
      case False
      with "2.prems"(3) show ?thesis by (auto simp: metric_key_inj)
    qed
    from "2.IH"(2) [OF Some a s run "2.prems"(2) this] show ?thesis .
  qed
qed

lemma statsProperties_returns:
  "\<forall>n \<in> set names. \<forall>st. map_of aggregations n = Some st \<longrightarrow> Avg st \<noteq> None \<and> Sum st \<noteq> None \<Longrightarrow>
   \<exists>props'. statsProperties aggregations names props = Ok props'"
proof (induction aggregations names props rule: statsProperties.induct)
  case (1 aggregations props)
  then show ?case by simp
next
  case (2 aggregations aggName rest props)
  show ?case
  proof (cases "map_of aggregations aggName")
    case None
    with 2 show ?thesis by simp
  next
    case (Some statsAgg)
    with "2.prems" obtain avg sumv where a: "Avg statsAgg = Some avg" and s: "Sum statsAgg = Some sumv"
      by auto
    from "2.prems" have
      "\<forall>n \<in> set rest. \<forall>st. map_of aggregations n = Some st \<longrightarrow> Avg st \<noteq> None \<and> Sum st \<noteq> None"
      by simp
    from "2.IH"(2) [OF Some a s this] obtain props' where
      "statsProperties aggregations rest
         (props(aggName @ '':avg'' \<mapsto> VFloat avg, aggName @ '':sum'' \<mapsto> VFloat sumv,
                aggName @ '':count'' \<mapsto> VInt (Count statsAgg))) = Ok props'"
      by blast
    with Some a s show ?thesis by simp
  qed
qed

lemma bucketToFeature_cell:
  assumes key: "Key b = VStr key"
    and nonnil: "\<forall>n \<in> set (configuredMetrics e). \<forall>st. map_of (Aggregations b) n = Some st \<longrightarrow>
                  Avg st \<noteq> None \<and> Sum st \<noteq> None"
  shows "\<exists>feat. bucketToFeature lib e b = Ok feat \<and> cellFeature lib e b feat"
proof -
  from statsProperties_returns [OF nonnil, of Map.empty] obtain props where
    run: "statsProperties (Aggregations b) (configuredMetrics e) Map.empty = Ok props"
    by blast
  obtain lat lng where c: "Center lib (BoundingBox lib key) = (lat, lng)"
    by (cases "Center lib (BoundingBox lib key)")
  let ?feat = "\<lparr>ID = key, Geometry = Point lng lat, Properties = props\<rparr>"
  from key run c have ok: "bucketToFeature lib e b = Ok ?feat"
    by (simp add: bucketToFeature_def configuredMetrics_def Let_def)
  have present: "props (n @ '':avg'') = map_option VFloat (Avg st)
      \<and> props (n @ '':sum'') = map_option VFloat (Sum st)
      \<and> props (n @ '':count'') = Some (VInt (Count st))"
    if "n \<in> set (configuredMetrics e)" "map_of (Aggregations b) n = Some st" for n st
    using statsProperties_present [OF run that(2)] that(1) by simp
  have origin: "\<exists>n \<in> set (configuredMetrics e). map_of (Aggregations b) n \<noteq> None \<and> k \<in> metricKeys n"
    if "k \<in> dom props" for k
  proof (rule ccontr)
    assume "\<not> ?thesis"
    then have "\<forall>n \<in> set (configuredMetrics e). map_of (Aggregations b) n \<noteq> None \<longrightarrow> k \<notin> metricKeys n"
      by blast
    from statsProperties_other [OF run this] that show False by auto
  qed
  have absent: "props (n @ '':avg'') = None \<and> props (n @ '':sum'') = None \<and> props (n @ '':count'') = None"
    if "map_of (Aggregations b) n = None" for n
  proof -
    have "k \<notin> dom props" if "k \<in> metricKeys n" for k
    proof
      assume "k \<in> dom props"
      from origin [OF this] obtain m where "map_of (Aggregations b) m \<noteq> None" "k \<in> metricKeys m"
        by blast
      with \<open>k \<in> metricKeys n\<close> \<open>map_of (Aggregations b) n = None\<close> show False
        by (auto simp: metricKeys_def metric_key_inj)
    qed
    then show ?thesis by (auto simp: metricKeys_def)
  qed
  have "cellFeature lib e b ?feat"
    unfolding cellFeature_def
  proof (intro conjI ballI)
    show "Key b = VStr (ID ?feat)" using key by simp
    show "Geometry ?feat = (case Center lib (BoundingBox lib (ID ?feat)) of (lat, lng) \<Rightarrow> Point lng lat)"
      using c by simp
  next
    fix n assume "n \<in> set (configuredMetrics e)"
    then show "case map_of (Aggregations b) n of
              Some st \<Rightarrow>
                Properties ?feat (n @ '':avg'') = map_option VFloat (Avg st)
                \<and> Properties ?feat (n @ '':sum'') = map_option VFloat (Sum st)
                \<and> Properties ?feat (n @ '':count'') = Some (VInt (Count st))
            | None \<Rightarrow>
                Properties ?feat (n @ '':avg'') = None \<and> Properties ?feat (n @ '':sum'') = None
                \<and> Properties ?feat (n @ '':count'') = None"
      using present [of n] absent [of n] by (cases "map_of (Aggregations b) n") simp_all
  next
    fix k assume "k \<in> dom (Properties ?feat)"
    then show "\<exists>n \<in> set (configuredMetrics e). map_of (Aggregations b) n \<noteq> None \<and> k \<in> metricKeys n"
      using origin [of k] by simp
  qed
  with ok show ?thesis by blast
qed

lemma bucketsToFeatures_cells:
  assumes "\<forall>b \<in> set buckets. \<exists>key. Key b = VStr key"
    and "\<forall>b \<in> set buckets. \<forall>n \<in> set (configuredMetrics e). \<forall>st.
           map_of (Aggregations b) n = Some st \<longrightarrow> Avg st \<noteq> None \<and> Sum st \<noteq> None"
  shows "\<exists>fs. bucketsToFeatures lib e buckets fc = Ok (fc @ fs) \<and> list_all2 (cellFeature lib e) buckets fs"
  using assms
proof (induction buckets arbitrary: fc)
  case Nil
  then show ?case by simp
next
  case (Cons b buckets)
  from Cons.prems obtain key where "Key b = VStr key" by auto
  moreover from Cons.prems have "\<forall>n \<in> set (configuredMetrics e). \<forall>st.
           map_of (Aggregations b) n = Some st \<longrightarrow> Avg st \<noteq> None \<and> Sum st \<noteq> None"
    by simp
  ultimately obtain feat where f: "bucketToFeature lib e b = Ok feat" "cellFeature lib e b feat"
    using bucketToFeature_cell [of b key e lib] by blast
  from Cons.prems have "\<forall>b \<in> set buckets. \<exists>key. Key b = VStr key"
    and "\<forall>b \<in> set buckets. \<forall>n \<in> set (configuredMetrics e). \<forall>st.
           map_of (Aggregations b) n = Some st \<longrightarrow> Avg st \<noteq> None \<and> Sum st \<noteq> None"
    by simp_all
  from Cons.IH [OF this, of "fc @ [feat]"] obtain fs where
    "bucketsToFeatures lib e buckets (fc @ [feat]) = Ok ((fc @ [feat]) @ fs)"
    "list_all2 (cellFeature lib e) buckets fs"
    by blast
  with f show ?case by (intro exI [of _ "feat # fs"]) simp
qed

text \<open>
  On every answer whose cell keys are strings and whose reported metrics carry an average
  and a sum, the aggregation retrieval returns one feature per cell, in the order of the
  cells, each the feature of its cell.
\<close>

lemma doGetAggregates_cells:
  assumes "ctx ''tile'' = Some (TileValue tile)"
    and "SearchResponse (ES e) = Inr results" and "Cells results = Some buckets"
    and "\<forall>b \<in> set buckets. \<exists>key. Key b = VStr key"
    and "\<forall>b \<in> set buckets. \<forall>n \<in> set (configuredMetrics e). \<forall>st.
           map_of (Aggregations b) n = Some st \<longrightarrow> Avg st \<noteq> None \<and> Sum st \<noteq> None"
  shows "\<exists>fc tr. doGetAggregates lib e ctx = (Ok fc, tr) \<and> list_all2 (cellFeature lib e) buckets fc"
proof -
  from bucketsToFeatures_cells [OF assms(4) assms(5), of lib "[]"] obtain fs where
    "bucketsToFeatures lib e buckets [] = Ok fs" "list_all2 (cellFeature lib e) buckets fs"
    by auto
  with assms(1-3) show ?thesis
    by (simp add: doGetAggregates_def Let_def)
qed

text \<open>
  C4. On the answer with a cell that reports pop with average 3.5, sum 35 and count 10 and
  a cell without pop, the retrieval returns one feature per cell, at the centre of the
  cell's box and with the cell's key as identifier; the first has exactly the three
  properties of pop, the second has none. On the answer where pop is present in a cell with
  no average (the pointer is nil), the retrieval panics on the dereference instead of
  returning a feature for the cell: there the code does not do what C4 states.
\<close>

theorem doGetAggregates_nil_average:
  "doGetAggregates exampleLibrary
      (exampleSource\<lparr>ES := emptyCellClient, Aggs := Some [(''pop'', ''population'')]\<rparr>) exampleContext
     = (Panic NilDereference, [Do (exampleSearch [(''pop'', ''population'')]) None])
   \<and> (\<exists>props.
      doGetAggregates exampleLibrary
        (exampleSource\<lparr>ES := populatedClient, Aggs := Some [(''pop'', ''population'')]\<rparr>) exampleContext
       = (Ok [\<lparr>ID = ''s'', Geometry = Point 22.5 22.5, Properties = props\<rparr>,
              \<lparr>ID = ''u'', Geometry = Point 22.5 67.5, Properties = Map.empty\<rparr>],
          [Do (exampleSearch [(''pop'', ''population'')]) None])
      \<and> dom props = {''pop:avg'', ''pop:sum'', ''pop:count''}
      \<and> props ''pop:avg'' = Some (VFloat 3.5) \<and> props ''pop:sum'' = Some (VFloat 35)
      \<and> props ''pop:count'' = Some (VInt 10))"
proof -
  have 1: "doGetAggregates exampleLibrary
      (exampleSource\<lparr>ES := emptyCellClient, Aggs := Some [(''pop'', ''population'')]\<rparr>) exampleContext
     = (Panic NilDereference, [Do (exampleSearch [(''pop'', ''population'')]) None])"
    by (simp add: doGetAggregates_def exampleSource_def emptyCellClient_def exampleContext_def
        exampleLibrary_def exampleSearch_def bucketToFeature_def Let_def boundsFilter_def)
  have 2: "doGetAggregates exampleLibrary
        (exampleSource\<lparr>ES := populatedClient, Aggs := Some [(''pop'', ''population'')]\<rparr>) exampleContext
       = (Ok [\<lparr>ID = ''s'', Geometry = Point 22.5 22.5,
               Properties = [''pop:avg'' \<mapsto> VFloat 3.5, ''pop:sum'' \<mapsto> VFloat 35, ''pop:count'' \<mapsto> VInt 10]\<rparr>,
              \<lparr>ID = ''u'', Geometry = Point 22.5 67.5, Properties = Map.empty\<rparr>],
          [Do (exampleSearch [(''pop'', ''population'')]) None])"
    by (simp add: doGetAggregates_def exampleSource_def populatedClient_def exampleContext_def
        exampleLibrary_def exampleSearch_def bucketToFeature_def Let_def boundsFilter_def)
  have 3: "dom [''pop:avg'' \<mapsto> VFloat 3.5, ''pop:sum'' \<mapsto> VFloat 35, ''pop:count'' \<mapsto> VInt 10]
      = {''pop:avg'', ''pop:sum'', ''pop:count''}"
    by auto
  from 1 2 3 show ?thesis by simp
qed

section \<open>Results about the layer construction\<close>

text \<open>
  C8. \<^verbatim>\<open>CreateLayer\<close> fails with \<open>NoSourcesErr\<close> when neither backend is configured and
  with \<open>MultipleSourcesErr\<close> when both are. With only Elasticsearch configured it is the
  error of the client constructor, unchanged, or the layer of the configuration whose
  source is the Elasticsearch source built from the configuration and the client; with
  only PostGIS configured it is the error of the PostGIS constructor, unchanged, or the
  layer whose source is the PostGIS source it built.
\<close>

theorem CreateLayer_sources:
  "(elasticsearch (lc_source cfg) = None \<and> postgis (lc_source cfg) = None \<longrightarrow>
      CreateLayer NewClient NewPostGISSource cfg = Err NoSourcesErr)
   \<and> (elasticsearch (lc_source cfg) \<noteq> None \<and> postgis (lc_source cfg) \<noteq> None \<longrightarrow>
      CreateLayer NewClient NewPostGISSource cfg = Err MultipleSourcesErr)
   \<and> (elasticsearch (lc_source cfg) = Some esConfig \<and> postgis (lc_source cfg) = None \<longrightarrow>
      CreateLayer NewClient NewPostGISSource cfg =
        (case NewClient (host esConfig) (port esConfig) of
           Inl err \<Rightarrow> Err err
         | Inr es \<Rightarrow>
             Ok \<lparr>Name = lc_name cfg, Description = lc_description cfg,
                 Minzoom = lc_minzoom cfg, Maxzoom = lc_maxzoom cfg,
                 Source = Some (ElasticsearchBackend
                   \<lparr>ES = es, Index = index esConfig, GeometryField = geometryField esConfig,
                    SourceFields = sourceFields esConfig, Aggs = aggs esConfig\<rparr>)\<rparr>))
   \<and> (elasticsearch (lc_source cfg) = None \<and> postgis (lc_source cfg) = Some pgConfig \<longrightarrow>
      CreateLayer NewClient NewPostGISSource cfg =
        (case NewPostGISSource pgConfig of
           Inl err \<Rightarrow> Err err
         | Inr pg \<Rightarrow>
             Ok \<lparr>Name = lc_name cfg, Description = lc_description cfg,
                 Minzoom = lc_minzoom cfg, Maxzoom = lc_maxzoom cfg,
                 Source = Some (PostGISBackend pg)\<rparr>))"
  by (auto simp: CreateLayer_def NewElasticsearchSource_def Let_def split: sum.splits)

theorem CreateLayer_sources_witness:
  "CreateLayer (\<lambda>h p. Inr exampleClient) (\<lambda>c :: string. Inr c)
      \<lparr>lc_name = ''places'', lc_description = ''Places'', lc_minzoom = 0, lc_maxzoom = 12,
       lc_source = \<lparr>elasticsearch = None, postgis = None\<rparr>\<rparr> = Err NoSourcesErr
   \<and> CreateLayer (\<lambda>h p. Inr exampleClient) (\<lambda>c :: string. Inr c)
      \<lparr>lc_name = ''places'', lc_description = ''Places'', lc_minzoom = 0, lc_maxzoom = 12,
       lc_source = \<lparr>elasticsearch = Some exampleConfig, postgis = Some ''dsn''\<rparr>\<rparr>
      = Err MultipleSourcesErr
   \<and> CreateLayer (\<lambda>h p. Inr exampleClient) (\<lambda>c :: string. Inr c)
      \<lparr>lc_name = ''places'', lc_description = ''Places'', lc_minzoom = 0, lc_maxzoom = 12,
       lc_source = \<lparr>elasticsearch = Some exampleConfig, postgis = None\<rparr>\<rparr>
      = Ok \<lparr>Name = ''places'', Description = ''Places'', Minzoom = 0, Maxzoom = 12,
            Source = Some (ElasticsearchBackend
              \<lparr>ES = exampleClient, Index = ''places'', GeometryField = ''location.geometry'',
               SourceFields = [(''name'', ''properties.name'')], Aggs = None\<rparr>)\<rparr>
   \<and> CreateLayer (\<lambda>h p. Inl (External ''no Elasticsearch node available'')) (\<lambda>c :: string. Inr c)
      \<lparr>lc_name = ''places'', lc_description = ''Places'', lc_minzoom = 0, lc_maxzoom = 12,
       lc_source = \<lparr>elasticsearch = Some exampleConfig, postgis = None\<rparr>\<rparr>
      = Err (External ''no Elasticsearch node available'')
   \<and> CreateLayer (\<lambda>h p. Inr exampleClient) (\<lambda>c :: string. Inr c)
      \<lparr>lc_name = ''places'', lc_description = ''Places'', lc_minzoom = 0, lc_maxzoom = 12,
       lc_source = \<lparr>elasticsearch = None, postgis = Some ''dsn''\<rparr>\<rparr>
      = Ok \<lparr>Name = ''places'', Description = ''Places'', Minzoom = 0, Maxzoom = 12,
            Source = Some (PostGISBackend ''dsn'')\<rparr>
   \<and> CreateLayer (\<lambda>h p. Inr exampleClient)
      (\<lambda>c :: string. Inl (External ''connection refused'') :: error + string)
      \<lparr>lc_name = ''places'', lc_description = ''Places'', lc_minzoom = 0, lc_maxzoom = 12,
       lc_source = \<lparr>elasticsearch = None, postgis = Some ''dsn''\<rparr>\<rparr>
      = Err (External ''connection refused'')"
proof -
  let ?ok = "\<lambda>(h :: string) (p :: int). (Inr exampleClient :: error + client)"
  let ?ko = "\<lambda>(h :: string) (p :: int). (Inl (External ''no Elasticsearch node available'') :: error + client)"
  let ?pg = "\<lambda>c :: string. (Inr c :: error + string)"
  let ?pk = "\<lambda>c :: string. (Inl (External ''connection refused'') :: error + string)"
  let ?cfg = "\<lambda>es pg. \<lparr>lc_name = ''places'', lc_description = ''Places'', lc_minzoom = 0, lc_maxzoom = 12,
       lc_source = \<lparr>elasticsearch = es, postgis = pg\<rparr>\<rparr>"
  show ?thesis
    using CreateLayer_sources [where cfg = "?cfg None None" and NewClient = ?ok and NewPostGISSource = ?pg]
      CreateLayer_sources [where cfg = "?cfg (Some exampleConfig) (Some ''dsn'')" and NewClient = ?ok
        and NewPostGISSource = ?pg]
      CreateLayer_sources [where cfg = "?cfg (Some exampleConfig) None" and esConfig = exampleConfig
        and NewClient = ?ok and NewPostGISSource = ?pg]
      CreateLayer_sources [where cfg = "?cfg (Some exampleConfig) None" and esConfig = exampleConfig
        and NewClient = ?ko and NewPostGISSource = ?pg]
      CreateLayer_sources [where cfg = "?cfg None (Some ''dsn'')" and pgConfig = "''dsn''"
        and NewClient = ?ok and NewPostGISSource = ?pg]
      CreateLayer_sources [where cfg = "?cfg None (Some ''dsn'')" and pgConfig = "''dsn''"
        and NewClient = ?ok and NewPostGISSource = ?pk]
    by (simp add: exampleConfig_def)
qed

end
